theory Spec2Isabelle
  imports Complex_Main
begin

section \<open>JavaScript numbers\<close>

text \<open>
  The overlay renderer (\<^verbatim>\<open>VideoPlayer\<close>) computes with JavaScript numbers. A number is
  modelled as a finite real or one of the three special values that a division by zero
  produces. Arithmetic on finite values is exact: rounding, overflow and the sign of zero
  are not part of the model. The special values follow IEEE 754 as JavaScript has it.
\<close>

datatype jsnum = Fin real | PInf | NInf | NaN

fun jneg :: "jsnum \<Rightarrow> jsnum" where
  "jneg (Fin a) = Fin (- a)"
| "jneg PInf = NInf"
| "jneg NInf = PInf"
| "jneg NaN = NaN"

fun jadd :: "jsnum \<Rightarrow> jsnum \<Rightarrow> jsnum" where
  "jadd (Fin a) (Fin b) = Fin (a + b)"
| "jadd NaN _ = NaN"
| "jadd _ NaN = NaN"
| "jadd PInf NInf = NaN"
| "jadd NInf PInf = NaN"
| "jadd PInf _ = PInf"
| "jadd _ PInf = PInf"
| "jadd NInf _ = NInf"
| "jadd _ NInf = NInf"

definition jsub :: "jsnum \<Rightarrow> jsnum \<Rightarrow> jsnum" where
  "jsub a b = jadd a (jneg b)"

fun jmul :: "jsnum \<Rightarrow> jsnum \<Rightarrow> jsnum" where
  "jmul (Fin a) (Fin b) = Fin (a * b)"
| "jmul NaN _ = NaN"
| "jmul _ NaN = NaN"
| "jmul (Fin a) PInf = (if a = 0 then NaN else if 0 < a then PInf else NInf)"
| "jmul (Fin a) NInf = (if a = 0 then NaN else if 0 < a then NInf else PInf)"
| "jmul PInf (Fin b) = (if b = 0 then NaN else if 0 < b then PInf else NInf)"
| "jmul NInf (Fin b) = (if b = 0 then NaN else if 0 < b then NInf else PInf)"
| "jmul PInf PInf = PInf"
| "jmul NInf NInf = PInf"
| "jmul PInf NInf = NInf"
| "jmul NInf PInf = NInf"

text \<open>Division: \<open>0 / 0\<close> is NaN and \<open>a / 0\<close> is an infinity with the sign of \<open>a\<close>.\<close>

fun jdiv :: "jsnum \<Rightarrow> jsnum \<Rightarrow> jsnum" where
  "jdiv (Fin a) (Fin b) =
     (if b \<noteq> 0 then Fin (a / b) else if a = 0 then NaN else if 0 < a then PInf else NInf)"
| "jdiv NaN _ = NaN"
| "jdiv _ NaN = NaN"
| "jdiv (Fin a) PInf = Fin 0"
| "jdiv (Fin a) NInf = Fin 0"
| "jdiv PInf (Fin b) = (if 0 \<le> b then PInf else NInf)"
| "jdiv NInf (Fin b) = (if 0 \<le> b then NInf else PInf)"
| "jdiv PInf PInf = NaN"
| "jdiv PInf NInf = NaN"
| "jdiv NInf PInf = NaN"
| "jdiv NInf NInf = NaN"

text \<open>The comparison \<open>a < b\<close>; every comparison with NaN is false.\<close>

fun jlt :: "jsnum \<Rightarrow> jsnum \<Rightarrow> bool" where
  "jlt (Fin a) (Fin b) = (a < b)"
| "jlt NaN _ = False"
| "jlt _ NaN = False"
| "jlt NInf NInf = False"
| "jlt NInf _ = True"
| "jlt PInf _ = False"
| "jlt (Fin a) PInf = True"
| "jlt (Fin a) NInf = False"

definition jgt :: "jsnum \<Rightarrow> jsnum \<Rightarrow> bool" where
  "jgt a b = jlt b a"

text \<open>\<^verbatim>\<open>Math.max\<close> and \<^verbatim>\<open>Math.min\<close> return NaN as soon as one argument is NaN.\<close>

definition Math_max :: "jsnum \<Rightarrow> jsnum \<Rightarrow> jsnum" where
  "Math_max a b = (if a = NaN \<or> b = NaN then NaN else if jlt a b then b else a)"

definition Math_min :: "jsnum \<Rightarrow> jsnum \<Rightarrow> jsnum" where
  "Math_min a b = (if a = NaN \<or> b = NaN then NaN else if jlt b a then b else a)"

fun Math_floor :: "jsnum \<Rightarrow> jsnum" where
  "Math_floor (Fin a) = Fin (of_int \<lfloor>a\<rfloor>)"
| "Math_floor n = n"

definition isNaN :: "jsnum \<Rightarrow> bool" where
  "isNaN n = (n = NaN)"

text \<open>Truthiness of a number: \<open>0\<close> and NaN are falsy.\<close>

definition truthy :: "jsnum \<Rightarrow> bool" where
  "truthy n = (n \<noteq> Fin 0 \<and> n \<noteq> NaN)"

text \<open>
  An array element that may be \<^verbatim>\<open>null\<close> (\<open>None\<close>). Arithmetic converts \<^verbatim>\<open>null\<close>
  to \<open>0\<close>.
\<close>

type_synonym jsval = "jsnum option"

definition toNumber :: "jsval \<Rightarrow> jsnum" where
  "toNumber v = (case v of None \<Rightarrow> Fin 0 | Some n \<Rightarrow> n)"

text \<open>
  Reading \<^verbatim>\<open>xs[n]\<close> with a number as index: \<^verbatim>\<open>undefined\<close> (\<open>None\<close>) unless \<open>n\<close> is
  a whole number inside the array.
\<close>

definition js_index :: "'a list \<Rightarrow> jsnum \<Rightarrow> 'a option" where
  "js_index xs n =
     (case n of
        Fin r \<Rightarrow>
          if r = of_int \<lfloor>r\<rfloor> \<and> 0 \<le> r \<and> r < of_nat (length xs) then Some (xs ! nat \<lfloor>r\<rfloor>)
          else None
      | _ \<Rightarrow> None)"

text \<open>\<^verbatim>\<open>Map.get\<close> on a map keyed by whole frame numbers.\<close>

definition map_get :: "(int \<rightharpoonup> 'a) \<Rightarrow> jsnum \<Rightarrow> 'a option" where
  "map_get m n =
     (case n of Fin r \<Rightarrow> if r = of_int \<lfloor>r\<rfloor> then m \<lfloor>r\<rfloor> else None | _ \<Rightarrow> None)"

section \<open>Helper utilities of the video player\<close>

definition lerp :: "jsnum \<Rightarrow> jsnum \<Rightarrow> jsnum \<Rightarrow> jsnum" where
  "lerp start end' t = jadd start (jmul (jsub end' start) t)"


text \<open>
  Reading element \<open>i\<close> of a numeric array inside arithmetic: a missing element is
  \<^verbatim>\<open>undefined\<close>, which arithmetic turns into NaN.
\<close>

definition js_elem :: "real list \<Rightarrow> nat \<Rightarrow> jsnum" where
  "js_elem xs i = (if i < length xs then Fin (xs ! i) else NaN)"

text \<open>
  \<^verbatim>\<open>String.prototype.toUpperCase\<close> on the letters \<open>a\<close> to \<open>z\<close>; other characters
  are kept.
\<close>

definition upper_char :: "char \<Rightarrow> char" where
  "upper_char c =
     (if 97 \<le> (of_char c :: nat) \<and> (of_char c :: nat) \<le> 122 then char_of (of_char c - 32 :: nat)
      else c)"

definition toUpperCase :: "string \<Rightarrow> string" where
  "toUpperCase s = map upper_char s"

section \<open>Data model of the video player\<close>

text \<open>
  Numbers that arrive as JSON or from the page (video size, frame rate, playback time,
  pointer and layout coordinates, boxes) are finite and are kept as reals; frame numbers
  of action events are whole numbers. Values computed from them are \<^typ>\<open>jsnum\<close>.
\<close>

record video_metadata =
  fps :: real
  width :: real
  height :: real
  total_frames :: "int option"

record action_event =
  action :: string
  start_frame :: int
  end_frame :: int
  box :: "real list option"

record player_detection =
  player_id :: int
  pbox :: "real list"
  confidence :: "real option"

text \<open>
  A court corner is a pair of numbers. A slot of the corner array holds a corner, or is a
  hole, or holds \<^verbatim>\<open>undefined\<close>. A write beyond the end of the array leaves holes
  behind; \<^verbatim>\<open>forEach\<close> and \<^verbatim>\<open>map\<close> skip them. Copying the array with \<^verbatim>\<open>[...prev]\<close> turns
  a hole into \<^verbatim>\<open>undefined\<close>, which \<^verbatim>\<open>forEach\<close> and \<^verbatim>\<open>map\<close> visit and whose coordinates
  cannot be read.
\<close>

type_synonym corner = "jsnum \<times> jsnum"

datatype slot = Hole | Undefined | Present corner

type_synonym corners = "slot list"

text \<open>A 3D ball sample: \<^verbatim>\<open>null\<close> or an array whose elements are numbers or \<^verbatim>\<open>null\<close>.\<close>

type_synonym sample = "jsval list option"

datatype error = TypeError

record props =
  metadata :: video_metadata
  avgCourtCorners :: "corners option"
  courtLinesConfirmed :: bool
  ballTracks :: "real list option list option"
  ball3dPositions :: "sample list option"
  actionDetections :: "action_event list option"
  playerTracksMap :: "int \<rightharpoonup> player_detection list"
  playerNames :: "int \<rightharpoonup> string"
  showCourtTracking :: bool
  showBallTracking :: bool
  showPlayerTracking :: bool
  showBallHeight :: bool

text \<open>
  What \<^verbatim>\<open>draw\<close> reads from the page: the video element, the canvas with its container
  and 2D context, the net-view elements. \<open>canvasDim\<close> is the browser's conversion of a
  number assigned to \<^verbatim>\<open>canvas.width\<close> or \<^verbatim>\<open>canvas.height\<close> into the value read
  back; it is not code of this repository and stays a parameter.
\<close>

record video_element =
  currentTime :: real
  readyState :: nat

record canvas_element =
  parentElement :: "(real \<times> real) option"
  context2d :: bool

record dom =
  videoRef :: "video_element option"
  canvasRef :: "canvas_element option"
  netBallRef :: bool
  netBallLabelRef :: "(real \<times> real) option"
  netBallLabelRectRef :: bool
  canvasDim :: "jsnum \<Rightarrow> jsnum"

section \<open>Net view configuration\<close>

definition SCALE :: real where "SCALE = 40"
definition COURT_WIDTH :: real where "COURT_WIDTH = 9"
definition NET_HEIGHT :: real where "NET_HEIGHT = 243 / 100"
definition ANTENNA_HEIGHT :: real where "ANTENNA_HEIGHT = 8 / 10"
definition BAND_HEIGHT :: real where "BAND_HEIGHT = 7 / 100"
definition POST_OFFSET :: real where "POST_OFFSET = 3048 / 10000"
definition POST_WIDTH :: real where "POST_WIDTH = 15 / 100"

definition m2px :: "jsnum \<Rightarrow> jsnum" where
  "m2px m = jmul m (Fin SCALE)"

definition totalNetWidth :: real where
  "totalNetWidth = COURT_WIDTH + 2 * (POST_OFFSET + POST_WIDTH) + 2"

definition totalNetHeight :: real where "totalNetHeight = 7"

definition vbWidth :: real where "vbWidth = totalNetWidth * SCALE"
definition vbHeight :: real where "vbHeight = totalNetHeight * SCALE"
definition groundY :: real where "groundY = vbHeight - (1 / 2) * SCALE"
definition courtStartX :: real where "courtStartX = (vbWidth - COURT_WIDTH * SCALE) / 2"

section \<open>Frame data index\<close>

text \<open>\<^verbatim>\<open>ballTracksMap\<close>: frame index to box, without the \<^verbatim>\<open>null\<close> entries.\<close>

definition ballTracksMap :: "real list option list option \<Rightarrow> (int \<rightharpoonup> real list)" where
  "ballTracksMap bt =
     (case bt of
        None \<Rightarrow> Map.empty
      | Some xs \<Rightarrow> (\<lambda>f. if 0 \<le> f \<and> nat f < length xs then xs ! nat f else None))"

text \<open>
  \<^verbatim>\<open>actionFrameMap\<close>: the loop \<^verbatim>\<open>for (f = start_frame; f <= end_frame; f++) map.set(f, event)\<close>
  run for every event in order, a later event overwriting an earlier one.
\<close>

function set_frames ::
  "(int \<rightharpoonup> action_event) \<Rightarrow> action_event \<Rightarrow> int \<Rightarrow> (int \<rightharpoonup> action_event)" where
  "set_frames m ev f = (if f \<le> end_frame ev then set_frames (m(f \<mapsto> ev)) ev (f + 1) else m)"
  by pat_completeness auto
termination
  by (relation "measure (\<lambda>(m, ev, f). nat (end_frame ev + 1 - f))") auto

declare set_frames.simps [simp del]

definition actionFrameMap :: "action_event list option \<Rightarrow> (int \<rightharpoonup> action_event)" where
  "actionFrameMap ads =
     (case ads of
        None \<Rightarrow> Map.empty
      | Some evs \<Rightarrow> fold (\<lambda>ev m. set_frames m ev (start_frame ev)) evs Map.empty)"


section \<open>Drawing helpers\<close>

text \<open>
  The canvas is modelled by the list of drawing operations of one redraw, with the
  coordinates the source passes to the 2D context. Colours, fonts and the measured text
  width of a label background are left out.
\<close>

datatype path_cmd = MoveTo jsnum jsnum | LineTo jsnum jsnum

datatype player_label = Named string | PNum int

datatype canvas_op =
    DrawImage jsnum jsnum
  | FillBlack jsnum jsnum
  | BallBox jsnum jsnum jsnum jsnum
  | CourtPolygon "path_cmd list"
  | PlayerBox jsnum jsnum jsnum jsnum player_label
  | ActionBox string jsnum jsnum jsnum jsnum
  | ActionBanner string jsnum

text \<open>The rectangle \<^verbatim>\<open>strokeRect(x1*sx, y1*sy, (x2-x1)*sx, (y2-y1)*sy)\<close> of a box.\<close>

definition scaled_rect :: "real list \<Rightarrow> jsnum \<Rightarrow> jsnum \<Rightarrow> jsnum \<times> jsnum \<times> jsnum \<times> jsnum" where
  "scaled_rect bbox scaleX scaleY =
     (let x1 = js_elem bbox 0; y1 = js_elem bbox 1; x2 = js_elem bbox 2; y2 = js_elem bbox 3
      in (jmul x1 scaleX, jmul y1 scaleY, jmul (jsub x2 x1) scaleX, jmul (jsub y2 y1) scaleY))"

definition drawBallBox :: "real list \<Rightarrow> jsnum \<Rightarrow> jsnum \<Rightarrow> canvas_op list" where
  "drawBallBox bbox scaleX scaleY =
     (case scaled_rect bbox scaleX scaleY of (x, y, w, h) \<Rightarrow> [BallBox x y w h])"

definition drawActionBox :: "string \<Rightarrow> real list \<Rightarrow> jsnum \<Rightarrow> jsnum \<Rightarrow> canvas_op list" where
  "drawActionBox act bbox scaleX scaleY =
     (case scaled_rect bbox scaleX scaleY of (x, y, w, h) \<Rightarrow> [ActionBox (toUpperCase act) x y w h])"

text \<open>
  \<^verbatim>\<open>forEach\<close> visits the slots that are not holes, with their index: the first slot starts
  the path, every other one adds a line. The callback destructures the slot,
  \<^verbatim>\<open>([x, y], i) => ...\<close>, which throws a TypeError on \<^verbatim>\<open>undefined\<close>.
\<close>

definition polygon_path :: "corners \<Rightarrow> jsnum \<Rightarrow> jsnum \<Rightarrow> path_cmd list" where
  "polygon_path cs scaleX scaleY =
     concat (map (\<lambda>(i, slot).
        case slot of
          Present (x, y) \<Rightarrow>
            [if i = 0 then MoveTo (jmul x scaleX) (jmul y scaleY)
             else LineTo (jmul x scaleX) (jmul y scaleY)]
        | _ \<Rightarrow> [])
       (enumerate 0 cs))"

definition drawCourtPolygon :: "corners \<Rightarrow> jsnum \<Rightarrow> jsnum \<Rightarrow> error + canvas_op list" where
  "drawCourtPolygon cs scaleX scaleY =
     (if length cs \<noteq> 4 then Inr []
      else if Undefined \<in> set cs then Inl TypeError
      else Inr [CourtPolygon (polygon_path cs scaleX scaleY)])"

definition drawPlayerBox ::
  "real list \<Rightarrow> int \<Rightarrow> (int \<rightharpoonup> string) \<Rightarrow> jsnum \<Rightarrow> jsnum \<Rightarrow> canvas_op list" where
  "drawPlayerBox bbox pid names scaleX scaleY =
     (let playerName = (case names pid of
                          None \<Rightarrow> PNum pid
                        | Some n \<Rightarrow> if n = [] then PNum pid else Named n)
      in case scaled_rect bbox scaleX scaleY of (x, y, w, h) \<Rightarrow> [PlayerBox x y w h playerName])"

definition getCanvasScale :: "jsnum \<Rightarrow> jsnum \<Rightarrow> video_metadata \<Rightarrow> jsnum \<times> jsnum" where
  "getCanvasScale canvas_width canvas_height md =
     (jdiv canvas_width (Fin (width md)), jdiv canvas_height (Fin (height md)))"

section \<open>The render loop body\<close>

subsection \<open>Court polygon (step C, court lines)\<close>

text \<open>
  The heuristic \<^verbatim>\<open>avgCourtCorners[0][0] < 2\<close>, which the source evaluates in \<^verbatim>\<open>draw\<close>,
  in \<^verbatim>\<open>handleGlobalMove\<close> and for the handles. Reading the first corner of an empty
  array, or of a first slot that is a hole or \<^verbatim>\<open>undefined\<close>, throws a TypeError
  (\<open>None\<close>).
\<close>

definition isNormalized :: "corners \<Rightarrow> bool option" where
  "isNormalized cs =
     (case cs of
        Present (x0, y0) # _ \<Rightarrow> Some (jlt x0 (Fin 2))
      | _ \<Rightarrow> None)"

text \<open>
  The callback \<^verbatim>\<open>([x, y]) => [x * metadata.width, y * metadata.height]\<close> on one slot;
  \<^verbatim>\<open>map\<close> keeps a hole as a hole and is not run on an array holding \<^verbatim>\<open>undefined\<close>, where
  the destructuring throws.
\<close>

definition scale_slot :: "video_metadata \<Rightarrow> slot \<Rightarrow> slot" where
  "scale_slot md s =
     (case s of
        Present (x, y) \<Rightarrow> Present (jmul x (Fin (width md)), jmul y (Fin (height md)))
      | _ \<Rightarrow> s)"

definition draw_court ::
  "props \<Rightarrow> jsnum \<Rightarrow> jsnum \<Rightarrow> error + canvas_op list" where
  "draw_court p scaleX scaleY =
     (case avgCourtCorners p of
        None \<Rightarrow> Inr []
      | Some cs \<Rightarrow>
          if showCourtTracking p \<and> length cs = 4 then
            (case isNormalized cs of
               None \<Rightarrow> Inl TypeError
             | Some normalized \<Rightarrow>
                 if normalized then
                   (if Undefined \<in> set cs then Inl TypeError
                    else drawCourtPolygon (map (scale_slot (metadata p)) cs) scaleX scaleY)
                 else drawCourtPolygon cs scaleX scaleY)
          else Inr [])"

subsection \<open>Ball box, player boxes, current action\<close>

definition draw_ball :: "props \<Rightarrow> jsnum \<Rightarrow> jsnum \<Rightarrow> jsnum \<Rightarrow> canvas_op list" where
  "draw_ball p currentFrameInt scaleX scaleY =
     (if showBallTracking p then
        (case map_get (ballTracksMap (ballTracks p)) currentFrameInt of
           None \<Rightarrow> []
         | Some ballBbox \<Rightarrow> drawBallBox ballBbox scaleX scaleY)
      else [])"

definition draw_players :: "props \<Rightarrow> jsnum \<Rightarrow> jsnum \<Rightarrow> jsnum \<Rightarrow> canvas_op list" where
  "draw_players p currentFrameInt scaleX scaleY =
     (if showPlayerTracking p then
        (case map_get (playerTracksMap p) currentFrameInt of
           None \<Rightarrow> []
         | Some playersInFrame \<Rightarrow>
             concat (map (\<lambda>player.
               drawPlayerBox (pbox player) (player_id player) (playerNames p) scaleX scaleY)
               playersInFrame))
      else [])"

definition draw_action :: "props \<Rightarrow> jsnum \<Rightarrow> jsnum \<Rightarrow> jsnum \<Rightarrow> jsnum \<Rightarrow> canvas_op list" where
  "draw_action p currentFrameInt canvas_width scaleX scaleY =
     (case map_get (actionFrameMap (actionDetections p)) currentFrameInt of
        None \<Rightarrow> []
      | Some currentAction \<Rightarrow>
          (case box currentAction of
             Some b \<Rightarrow> drawActionBox (action currentAction) b scaleX scaleY
           | None \<Rightarrow> [ActionBanner (toUpperCase (action currentAction)) (jdiv canvas_width (Fin 2))]))"

subsection \<open>3D net view\<close>

text \<open>
  The interpolated ball position of \<^verbatim>\<open>draw\<close>: \<open>None\<close> when the current sample does not
  pass the test \<^verbatim>\<open>posCurrent && posCurrent.length >= 3 && posCurrent[0] !== null\<close>
  (\<open>checked\<close>), otherwise the three coordinates, interpolated towards the next sample
  when that one passes the same test.
\<close>

definition checked :: "sample option \<Rightarrow> jsval list option" where
  "checked s =
     (case s of
        Some (Some xs) \<Rightarrow> if 3 \<le> length xs \<and> xs ! 0 \<noteq> None then Some xs else None
      | _ \<Rightarrow> None)"

definition interpolate :: "sample list \<Rightarrow> jsnum \<Rightarrow> (jsval \<times> jsval \<times> jsval) option" where
  "interpolate positions exactFrame =
     (let currentFrameInt = Math_floor exactFrame;
          alpha = jsub exactFrame currentFrameInt;
          posCurrent = js_index positions currentFrameInt;
          posNext = (if jlt (jadd currentFrameInt (Fin 1)) (Fin (of_nat (length positions)))
                     then js_index positions (jadd currentFrameInt (Fin 1))
                     else posCurrent)
      in case checked posCurrent of
           None \<Rightarrow> None
         | Some cur \<Rightarrow>
             (let x = cur ! 0; y = cur ! 1; z = cur ! 2
              in case checked posNext of
                   Some nxt \<Rightarrow>
                     Some (Some (lerp (toNumber x) (toNumber (nxt ! 0)) alpha),
                           Some (lerp (toNumber y) (toNumber (nxt ! 1)) alpha),
                           Some (lerp (toNumber z) (toNumber (nxt ! 2)) alpha))
                 | None \<Rightarrow> Some (x, y, z)))"

record label_update =
  label_height :: jsnum
  rectX :: jsnum
  rectY :: jsnum
  rectWidth :: jsnum
  rectHeight :: jsnum
  textX :: jsnum
  textY :: jsnum
  label_visible :: bool

datatype net_view =
    NetUnchanged
  | NetHidden
  | NetShown jsnum jsnum jsnum "label_update option"

text \<open>
  The label is written inside \<^verbatim>\<open>try\<close>: with a \<^verbatim>\<open>null\<close> height \<^verbatim>\<open>z.toFixed\<close>
  throws before anything is written, and the exception is ignored.
  \<^verbatim>\<open>netInfoRef\<close> is never attached to an element, so its two updates never run.
\<close>

definition ball_label ::
  "dom \<Rightarrow> bool \<Rightarrow> jsval \<Rightarrow> jsnum \<Rightarrow> jsnum \<Rightarrow> jsnum \<Rightarrow> label_update option" where
  "ball_label d showHeight z cx cy radius =
     (case netBallLabelRef d of
        None \<Rightarrow> None
      | Some (bbox_width, bbox_height) \<Rightarrow>
          if \<not> netBallLabelRectRef d then None
          else (case z of
                  None \<Rightarrow> None
                | Some zn \<Rightarrow>
                    let pad = Fin 8;
                        rw = jadd (Fin bbox_width) (jmul pad (Fin 2));
                        rh = jadd (Fin bbox_height) (jmul pad (Fin 2));
                        rx = jsub cx (jdiv rw (Fin 2));
                        ry = jsub (jsub (jsub cy radius) rh) (Fin 6)
                    in Some \<lparr>label_height = zn, rectX = rx, rectY = ry, rectWidth = rw,
                             rectHeight = rh, textX = cx, textY = jadd ry (jdiv rh (Fin 2)),
                             label_visible = showHeight\<rparr>))"

definition net_view_update :: "props \<Rightarrow> dom \<Rightarrow> jsnum \<Rightarrow> net_view" where
  "net_view_update p d exactFrame =
     (case ball3dPositions p of
        None \<Rightarrow> NetUnchanged
      | Some positions \<Rightarrow>
          if \<not> netBallRef d then NetUnchanged
          else (case interpolate positions exactFrame of
                  None \<Rightarrow> NetHidden
                | Some (x, y, z) \<Rightarrow>
                    let cx = jadd (Fin courtStartX) (m2px (toNumber x));
                        cy = jsub (Fin groundY) (m2px (toNumber z));
                        depthFactor = Math_max (Fin 0) (Math_min (Fin 1) (jdiv (toNumber y) (Fin 18)));
                        radius = jsub (Fin 10) (jmul depthFactor (Fin 5))
                    in NetShown cx cy radius (ball_label d (showBallHeight p) z cx cy radius)))"

subsection \<open>draw\<close>

text \<open>
  One redraw. \<open>Skipped\<close> is an early \<^verbatim>\<open>return\<close>; a drawn frame holds the render size and
  offsets given to the canvas and the overlay, the drawing operations in order, and the
  update of the net view. \<^verbatim>\<open>metadata\<close> always holds a value by its type, so the test
  \<^verbatim>\<open>!metadata\<close> is left out. An exception of the court step ends the redraw.
\<close>

record frame =
  renderWidth :: jsnum
  renderHeight :: jsnum
  topOffset :: jsnum
  leftOffset :: jsnum
  ops :: "canvas_op list"
  net :: net_view

datatype draw_result = Skipped | Drawn frame

definition draw :: "props \<Rightarrow> dom \<Rightarrow> error + draw_result" where
  "draw p d =
     (case (videoRef d, canvasRef d) of
        (Some video, Some canvas) \<Rightarrow>
          (case parentElement canvas of
             None \<Rightarrow> Inr Skipped
           | Some (containerWidth, containerHeight) \<Rightarrow>
               if \<not> context2d canvas then Inr Skipped
               else
                 let md = metadata p;
                     aspectRatio = jdiv (Fin (width md)) (Fin (height md))
                 in if \<not> truthy aspectRatio \<or> isNaN aspectRatio then Inr Skipped
                    else
                      let rw0 = Fin containerWidth;
                          rh0 = jdiv (Fin containerWidth) aspectRatio;
                          fits = \<not> jgt rh0 (Fin containerHeight);
                          rh = (if fits then rh0 else Fin containerHeight);
                          rw = (if fits then rw0 else jmul (Fin containerHeight) aspectRatio);
                          canvas_width = canvasDim d rw;
                          canvas_height = canvasDim d rh;
                          top_offset = jdiv (jsub (Fin containerHeight) rh) (Fin 2);
                          left_offset = jdiv (jsub (Fin containerWidth) rw) (Fin 2);
                          image = (if 2 \<le> readyState video then [DrawImage canvas_width canvas_height]
                                   else [FillBlack canvas_width canvas_height]);
                          (scaleX, scaleY) = getCanvasScale canvas_width canvas_height md;
                          exactFrame = jmul (Fin (currentTime video)) (Fin (fps md));
                          currentFrameInt = Math_floor exactFrame
                      in case draw_court p scaleX scaleY of
                           Inl e \<Rightarrow> Inl e
                         | Inr court \<Rightarrow>
                             Inr (Drawn
                               \<lparr>renderWidth = rw, renderHeight = rh,
                                topOffset = top_offset, leftOffset = left_offset,
                                ops = image
                                      @ draw_ball p currentFrameInt scaleX scaleY
                                      @ court
                                      @ draw_players p currentFrameInt scaleX scaleY
                                      @ draw_action p currentFrameInt canvas_width scaleX scaleY,
                                net = net_view_update p d exactFrame\<rparr>))
      | _ \<Rightarrow> Inr Skipped)"


section \<open>Calibration handles\<close>

record mouse_event =
  clientX :: real
  clientY :: real

text \<open>The overlay's bounding box, \<^verbatim>\<open>overlayRef.current.getBoundingClientRect()\<close>.\<close>

record rect =
  rect_left :: real
  rect_top :: real
  rect_width :: real
  rect_height :: real

text \<open>
  \<^verbatim>\<open>handleGlobalMove\<close> computes the new corner from the values it closes over and hands
  \<^verbatim>\<open>setAvgCourtCorners\<close> an updater; the result is the index and the corner that the
  updater writes, \<open>None\<close> after the early return.
\<close>

definition handleGlobalMove ::
  "props \<Rightarrow> nat option \<Rightarrow> rect option \<Rightarrow> mouse_event \<Rightarrow> error + (nat \<times> corner) option" where
  "handleGlobalMove p draggingIdx overlayRef e =
     (case (draggingIdx, overlayRef) of
        (Some idx, Some r) \<Rightarrow>
          (let x = jsub (Fin (clientX e)) (Fin (rect_left r));
               y = jsub (Fin (clientY e)) (Fin (rect_top r))
           in case avgCourtCorners p of
                None \<Rightarrow> Inl TypeError
              | Some cs \<Rightarrow>
                  (case isNormalized cs of
                     None \<Rightarrow> Inl TypeError
                   | Some normalized \<Rightarrow>
                       let newX = jdiv x (Fin (rect_width r));
                           newY = jdiv y (Fin (rect_height r));
                           newX = Math_max (Fin 0) (Math_min (Fin 1) newX);
                           newY = Math_max (Fin 0) (Math_min (Fin 1) newY)
                       in if \<not> normalized then
                            Inr (Some (idx, (jmul newX (Fin (width (metadata p))),
                                             jmul newY (Fin (height (metadata p))))))
                          else Inr (Some (idx, (newX, newY)))))
      | _ \<Rightarrow> Inr None)"

text \<open>
  The updater \<^verbatim>\<open>prev => { if (!prev) return null; const copy = [...prev]; copy[idx] = v; return copy; }\<close>.
  The copy \<^verbatim>\<open>[...prev]\<close> holds \<^verbatim>\<open>undefined\<close> where \<^verbatim>\<open>prev\<close> has a hole; a write beyond
  the end of the copy extends it and leaves holes.
\<close>

definition spread :: "corners \<Rightarrow> corners" where
  "spread cs = map (\<lambda>s. case s of Hole \<Rightarrow> Undefined | _ \<Rightarrow> s) cs"

definition update_corner :: "nat \<Rightarrow> corner \<Rightarrow> corners option \<Rightarrow> corners option" where
  "update_corner idx v prev =
     (case prev of
        None \<Rightarrow> None
      | Some cs \<Rightarrow>
          (let copy = spread cs
           in Some (if idx < length copy then copy[idx := Present v]
                    else copy @ replicate (idx - length copy) Hole @ [Present v])))"

text \<open>
  One pointer-move on the shared state, the component having rendered since the previous
  one: the handler closes over the current corners. An exception in the handler leaves
  the state as it is.
\<close>

definition pointer_move :: "props \<Rightarrow> nat option \<Rightarrow> rect option \<Rightarrow> mouse_event \<Rightarrow> props" where
  "pointer_move p draggingIdx overlayRef e =
     (case handleGlobalMove p draggingIdx overlayRef e of
        Inr (Some (idx, v)) \<Rightarrow> p\<lparr>avgCourtCorners := update_corner idx v (avgCourtCorners p)\<rparr>
      | _ \<Rightarrow> p)"

text \<open>A drag of handle \<open>idx\<close>: the pointer-moves between press and release.\<close>

fun drag :: "props \<Rightarrow> nat \<Rightarrow> (rect option \<times> mouse_event) list \<Rightarrow> props" where
  "drag p idx [] = p"
| "drag p idx ((r, e) # moves) = drag (pointer_move p (Some idx) r e) idx moves"

text \<open>
  The handles of the interaction layer: index, \<^verbatim>\<open>left\<close> and \<^verbatim>\<open>top\<close> in percent.
  \<^verbatim>\<open>map\<close> calls back for the slots that are not holes; the callback reads the first
  corner for the heuristic and then the coordinates of its own slot, which throws a
  TypeError on \<^verbatim>\<open>undefined\<close>.
\<close>

definition renderHandles :: "props \<Rightarrow> error + (nat \<times> jsnum \<times> jsnum) list" where
  "renderHandles p =
     (case avgCourtCorners p of
        None \<Rightarrow> Inr []
      | Some cs \<Rightarrow>
          if \<not> courtLinesConfirmed p \<and> length cs = 4 then
            (if list_all (\<lambda>s. s = Hole) cs then Inr []
             else case isNormalized cs of
                    None \<Rightarrow> Inl TypeError
                  | Some normalized \<Rightarrow>
                      if Undefined \<in> set cs then Inl TypeError
                      else
                        Inr (concat (map (\<lambda>(idx, slot).
                               case slot of
                                 Present (cx, cy) \<Rightarrow>
                                   (let x = (if normalized then cx else jdiv cx (Fin (width (metadata p))));
                                        y = (if normalized then cy else jdiv cy (Fin (height (metadata p))))
                                    in [(idx, jmul x (Fin 100), jmul y (Fin 100))])
                               | _ \<Rightarrow> [])
                             (enumerate 0 cs))))
          else Inr [])"

section \<open>Event timeline\<close>

text \<open>
  The numbers of the event viewer arrive as JSON and are finite; they are modelled as
  reals. An optional field is \<open>None\<close> when absent. Template strings are kept as the
  number they format together with their unit.
\<close>

record volleyball_event =
  ev_action :: string
  ev_start_frame :: real
  ev_end_frame :: real
  ev_player_id :: "real option"
  ball_height_m :: "real option"
  block_height_m :: "real option"
  ev_box :: "real list option"
  quality :: "real option"
  set_position :: "real option"

text \<open>The team of a score point has the type \<^verbatim>\<open>0 | 1\<close>.\<close>

datatype team = Team0 | Team1

record score_point =
  team :: team
  time :: real

datatype extra_info = Seconds real | Meters real | XMeters real

datatype height_detail = BallContact real | BlockHeight real

datatype player_text = Player real | UnknownPlayer

record event_card =
  card_id :: "real \<times> nat"
  frameId :: real
  endFrameId :: real
  card_timestamp :: real
  player :: player_text
  card_action :: string
  extraInfo :: extra_info
  card_quality :: "real option"
  details_duration :: real
  details_height :: "height_detail option"
  details_setPosition :: "real option"

record point_divider =
  point_id :: nat
  point_timestamp :: real
  scoreA :: nat
  scoreB :: nat

datatype timeline_item = EventCard event_card | PointDivider point_divider

text \<open>Truthiness of an optional number: absent and \<open>0\<close> are falsy.\<close>

definition truthy_opt :: "real option \<Rightarrow> bool" where
  "truthy_opt v = (case v of None \<Rightarrow> False | Some r \<Rightarrow> r \<noteq> 0)"

text \<open>The frame rate \<^verbatim>\<open>(fps || 30)\<close>, with the default \<open>30\<close> of an absent property.\<close>

definition fps_or_30 :: "real option \<Rightarrow> real" where
  "fps_or_30 f = (case f of None \<Rightarrow> 30 | Some v \<Rightarrow> if v = 0 then 30 else v)"

definition capitalize :: "string \<Rightarrow> string" where
  "capitalize s = (case s of [] \<Rightarrow> [] | c # cs \<Rightarrow> upper_char c # cs)"

definition eventItem :: "real option \<Rightarrow> volleyball_event \<Rightarrow> nat \<Rightarrow> event_card" where
  "eventItem f event index =
     (let formattedAction = capitalize (ev_action event);
          t = ev_start_frame event / fps_or_30 f;
          durationSec = (ev_end_frame event - ev_start_frame event) / fps_or_30 f;
          playerText = (if truthy_opt (ev_player_id event) then Player (the (ev_player_id event))
                        else UnknownPlayer);
          (extraInfoText, heightDetail, setPositionDetail) =
            (if ev_action event = ''spike'' \<and> truthy_opt (ball_height_m event) then
               (Meters (the (ball_height_m event)), Some (BallContact (the (ball_height_m event))), None)
             else if ev_action event = ''block'' \<and> truthy_opt (block_height_m event) then
               (Meters (the (block_height_m event)), Some (BlockHeight (the (block_height_m event))), None)
             else if ev_action event = ''set'' \<and> truthy_opt (ball_height_m event) then
               (Meters (the (ball_height_m event)), Some (BallContact (the (ball_height_m event))), None)
             else if ev_action event = ''set'' \<and> truthy_opt (set_position event) then
               (XMeters (the (set_position event)), None, Some (the (set_position event)))
             else (Seconds durationSec, None, None))
      in \<lparr>card_id = (ev_start_frame event, index),
          frameId = ev_start_frame event,
          endFrameId = ev_end_frame event,
          card_timestamp = t,
          player = playerText,
          card_action = formattedAction,
          extraInfo = extraInfoText,
          card_quality = quality event,
          details_duration = durationSec,
          details_height = heightDetail,
          details_setPosition = setPositionDetail\<rparr>)"

definition eventItems :: "real option \<Rightarrow> volleyball_event list \<Rightarrow> event_card list" where
  "eventItems f rawEvents = map (\<lambda>(index, event). eventItem f event index) (enumerate 0 rawEvents)"

text \<open>
  The point dividers: \<^verbatim>\<open>scoreA\<close> and \<^verbatim>\<open>scoreB\<close> are counters that the callback of
  \<^verbatim>\<open>map\<close> increments, here the accumulators \<open>a\<close> and \<open>b\<close>.
\<close>

fun pointItems_from :: "nat \<Rightarrow> nat \<Rightarrow> nat \<Rightarrow> score_point list \<Rightarrow> point_divider list" where
  "pointItems_from index a b [] = []"
| "pointItems_from index a b (point # points) =
     (let a' = (if team point = Team0 then a + 1 else a);
          b' = (if team point = Team0 then b else b + 1)
      in \<lparr>point_id = index, point_timestamp = time point, scoreA = a', scoreB = b'\<rparr>
         # pointItems_from (index + 1) a' b' points)"

definition pointItems :: "score_point list \<Rightarrow> point_divider list" where
  "pointItems points = pointItems_from 0 0 0 points"

definition timestamp :: "timeline_item \<Rightarrow> real" where
  "timestamp item = (case item of EventCard c \<Rightarrow> card_timestamp c | PointDivider d \<Rightarrow> point_timestamp d)"

text \<open>
  \<^verbatim>\<open>combined.sort((a, b) => a.timestamp - b.timestamp)\<close>: a stable sort by ascending
  timestamp, which \<^const>\<open>sort_key\<close> is.
\<close>

text \<open>The test \<^verbatim>\<open>item.type === 'point'\<close> that tells a divider from an event card.\<close>

definition is_point :: "timeline_item \<Rightarrow> bool" where
  "is_point item = (case item of PointDivider d \<Rightarrow> True | EventCard c \<Rightarrow> False)"

definition timelineItems ::
  "volleyball_event list \<Rightarrow> score_point list \<Rightarrow> real option \<Rightarrow> timeline_item list" where
  "timelineItems rawEvents points f =
     (let combined = map EventCard (eventItems f rawEvents) @ map PointDivider (pointItems points)
      in sort_key timestamp combined)"


section \<open>Example inputs\<close>

definition example_metadata :: video_metadata where
  "example_metadata = \<lparr>fps = 30, width = 640, height = 360, total_frames = None\<rparr>"

definition example_props :: props where
  "example_props =
     \<lparr>metadata = example_metadata,
      avgCourtCorners = Some [Present (Fin 100, Fin 50), Present (Fin 500, Fin 50),
                              Present (Fin 500, Fin 300), Present (Fin 100, Fin 300)],
      courtLinesConfirmed = False,
      ballTracks = None,
      ball3dPositions = Some [Some [Some (Fin 1), Some (Fin 2), Some (Fin 3)], None],
      actionDetections = None,
      playerTracksMap = Map.empty,
      playerNames = Map.empty,
      showCourtTracking = True,
      showBallTracking = True,
      showPlayerTracking = True,
      showBallHeight = True\<rparr>"

definition example_dom :: dom where
  "example_dom =
     \<lparr>videoRef = Some \<lparr>currentTime = 0, readyState = 4\<rparr>,
      canvasRef = Some \<lparr>parentElement = Some (1280, 720), context2d = True\<rparr>,
      netBallRef = True,
      netBallLabelRef = Some (60, 20),
      netBallLabelRectRef = True,
      canvasDim = Math_floor\<rparr>"

definition example_rect :: rect where
  "example_rect = \<lparr>rect_left = 0, rect_top = 0, rect_width = 640, rect_height = 360\<rparr>"

definition move_left_edge :: mouse_event where
  "move_left_edge = \<lparr>clientX = 0, clientY = 50\<rparr>"

definition move_centre :: mouse_event where
  "move_centre = \<lparr>clientX = 320, clientY = 180\<rparr>"

definition zero_container_dom :: dom where
  "zero_container_dom = example_dom\<lparr>canvasRef := Some \<lparr>parentElement = Some (0, 0), context2d = True\<rparr>\<rparr>"

definition zero_rect :: rect where
  "zero_rect = \<lparr>rect_left = 100, rect_top = 80, rect_width = 0, rect_height = 0\<rparr>"

definition move_on_corner :: mouse_event where
  "move_on_corner = \<lparr>clientX = 100, clientY = 80\<rparr>"


definition normalized_props :: props where
  "normalized_props =
     example_props\<lparr>avgCourtCorners := Some [Present (Fin (1 / 10), Fin (1 / 10)),
                                              Present (Fin (9 / 10), Fin (1 / 10)),
                                              Present (Fin (9 / 10), Fin (9 / 10)),
                                              Present (Fin (1 / 10), Fin (9 / 10))]\<rparr>"

definition two_corner_props :: props where
  "two_corner_props =
     example_props\<lparr>avgCourtCorners := Some [Present (Fin 100, Fin 50), Present (Fin 500, Fin 50)],
                   ball3dPositions := None\<rparr>"

definition three_corner_props :: props where
  "three_corner_props =
     example_props\<lparr>avgCourtCorners := Some [Present (Fin 100, Fin 50), Present (Fin 500, Fin 50),
                                              Present (Fin 500, Fin 300)],
                   ball3dPositions := None\<rparr>"

definition example_event :: volleyball_event where
  "example_event =
     \<lparr>ev_action = ''spike'', ev_start_frame = 60, ev_end_frame = 90, ev_player_id = Some 7,
      ball_height_m = Some 0, block_height_m = None, ev_box = None, quality = None,
      set_position = None\<rparr>"

section \<open>Properties of the frame data index\<close>

lemma set_frames_apply:
  "set_frames m ev f k = (if f \<le> k \<and> k \<le> end_frame ev then Some ev else m k)"
proof (induction m ev f rule: set_frames.induct)
  case (1 m ev f)
  show ?case
  proof (cases "f \<le> end_frame ev")
    case True
    have "set_frames m ev f k = set_frames (m(f \<mapsto> ev)) ev (f + 1) k"
      by (subst set_frames.simps) (simp add: True)
    also have "\<dots> = (if f + 1 \<le> k \<and> k \<le> end_frame ev then Some ev else (m(f \<mapsto> ev)) k)"
      by (rule "1.IH" [OF True])
    also have "\<dots> = (if f \<le> k \<and> k \<le> end_frame ev then Some ev else m k)"
      using True by auto
    finally show ?thesis .
  next
    case False
    have "set_frames m ev f k = m k"
      by (subst set_frames.simps) (simp add: False)
    with False show ?thesis by auto
  qed
qed

lemma fold_set_frames:
  "fold (\<lambda>ev m. set_frames m ev (start_frame ev)) evs m0 k =
     (case filter (\<lambda>e. start_frame e \<le> k \<and> k \<le> end_frame e) (rev evs) of
        [] \<Rightarrow> m0 k
      | e # _ \<Rightarrow> Some e)"
proof (induction evs arbitrary: m0)
  case Nil
  show ?case by simp
next
  case (Cons x xs)
  let ?F = "\<lambda>ev m. set_frames m ev (start_frame ev)"
  let ?P = "\<lambda>e. start_frame e \<le> k \<and> k \<le> end_frame e"
  have "fold ?F (x # xs) m0 k = fold ?F xs (set_frames m0 x (start_frame x)) k"
    by simp
  also have "\<dots> = (case filter ?P (rev xs) of
                      [] \<Rightarrow> set_frames m0 x (start_frame x) k
                    | e # _ \<Rightarrow> Some e)"
    by (rule Cons.IH)
  also have "\<dots> = (case filter ?P (rev (x # xs)) of [] \<Rightarrow> m0 k | e # _ \<Rightarrow> Some e)"
    by (simp add: set_frames_apply split: list.splits)
  finally show ?case .
qed

lemma actionFrameMap_last:
  "actionFrameMap (Some evs) k =
     (case filter (\<lambda>e. start_frame e \<le> k \<and> k \<le> end_frame e) (rev evs) of
        [] \<Rightarrow> None
      | e # _ \<Rightarrow> Some e)"
  unfolding actionFrameMap_def by (simp add: fold_set_frames)

lemma actionFrameMap_None:
  "actionFrameMap (Some evs) k = None \<longleftrightarrow> \<not> (\<exists>e\<in>set evs. start_frame e \<le> k \<and> k \<le> end_frame e)"
proof -
  have "actionFrameMap (Some evs) k = None \<longleftrightarrow>
        filter (\<lambda>e. start_frame e \<le> k \<and> k \<le> end_frame e) (rev evs) = []"
    by (simp add: actionFrameMap_last split: list.splits)
  then show ?thesis by (auto simp: filter_empty_conv)
qed

lemma actionFrameMap_Some_covers:
  assumes "actionFrameMap (Some evs) k = Some e"
  shows "e \<in> set evs \<and> start_frame e \<le> k \<and> k \<le> end_frame e"
proof -
  from assms obtain rest where
    "filter (\<lambda>e. start_frame e \<le> k \<and> k \<le> end_frame e) (rev evs) = e # rest"
    by (auto simp: actionFrameMap_last split: list.splits)
  then have "e \<in> set (filter (\<lambda>e. start_frame e \<le> k \<and> k \<le> end_frame e) (rev evs))"
    by simp
  then show ?thesis by simp
qed

text \<open>
  C4. The frame-indexed action lookup finds an event \<open>e\<close> at frame \<open>f\<close> exactly when
  \<open>e\<close> is one of the events and \<open>start_frame e \<le> f \<le> end_frame e\<close>, provided no two
  different events cover a common frame; it finds nothing exactly at the frames that no
  event covers; and \<^verbatim>\<open>draw\<close> looks the floor of the exact frame up in it. For the single
  event from frame 60 to frame 90 the lookup finds it at every frame from 60 to 90 and
  finds nothing at 59 and at 91.
\<close>

theorem action_lookup_interval:
  assumes disjoint: "\<forall>e1\<in>set evs. \<forall>e2\<in>set evs. \<forall>g.
             start_frame e1 \<le> g \<and> g \<le> end_frame e1 \<and> start_frame e2 \<le> g \<and> g \<le> end_frame e2
             \<longrightarrow> e1 = e2"
  shows "(actionFrameMap (Some evs) f = Some e \<longleftrightarrow>
            e \<in> set evs \<and> start_frame e \<le> f \<and> f \<le> end_frame e)
         \<and> (actionFrameMap (Some evs) f = None \<longleftrightarrow>
            \<not> (\<exists>e'\<in>set evs. start_frame e' \<le> f \<and> f \<le> end_frame e'))
         \<and> map_get (actionFrameMap (Some evs)) (Math_floor (Fin x)) = actionFrameMap (Some evs) \<lfloor>x\<rfloor>"
proof (intro conjI)
  show "actionFrameMap (Some evs) f = Some e \<longleftrightarrow>
          e \<in> set evs \<and> start_frame e \<le> f \<and> f \<le> end_frame e"
  proof
    assume "actionFrameMap (Some evs) f = Some e"
    then show "e \<in> set evs \<and> start_frame e \<le> f \<and> f \<le> end_frame e"
      by (rule actionFrameMap_Some_covers)
  next
    assume cov: "e \<in> set evs \<and> start_frame e \<le> f \<and> f \<le> end_frame e"
    then have "actionFrameMap (Some evs) f \<noteq> None"
      by (auto simp: actionFrameMap_None)
    then obtain e' where e': "actionFrameMap (Some evs) f = Some e'" by auto
    from actionFrameMap_Some_covers[OF e'] cov disjoint have "e' = e" by blast
    with e' show "actionFrameMap (Some evs) f = Some e" by simp
  qed
next
  show "actionFrameMap (Some evs) f = None \<longleftrightarrow>
          \<not> (\<exists>e'\<in>set evs. start_frame e' \<le> f \<and> f \<le> end_frame e')"
    by (rule actionFrameMap_None)
next
  show "map_get (actionFrameMap (Some evs)) (Math_floor (Fin x)) = actionFrameMap (Some evs) \<lfloor>x\<rfloor>"
    by (simp add: map_get_def)
qed

theorem action_lookup_interval_witness:
  "(\<forall>f. actionFrameMap (Some [\<lparr>action = ''spike'', start_frame = 60, end_frame = 90, box = None\<rparr>]) f
          = Some \<lparr>action = ''spike'', start_frame = 60, end_frame = 90, box = None\<rparr>
        \<longleftrightarrow> 60 \<le> f \<and> f \<le> 90)
   \<and> actionFrameMap (Some [\<lparr>action = ''spike'', start_frame = 60, end_frame = 90, box = None\<rparr>]) 59 = None
   \<and> actionFrameMap (Some [\<lparr>action = ''spike'', start_frame = 60, end_frame = 90, box = None\<rparr>]) 91 = None"
  using action_lookup_interval
    [of "[\<lparr>action = ''spike'', start_frame = 60, end_frame = 90, box = None\<rparr>]" _
        "\<lparr>action = ''spike'', start_frame = 60, end_frame = 90, box = None\<rparr>"]
  by simp



section \<open>Properties of the interpolation and the net view\<close>

lemma js_index_of_int:
  "js_index xs (Fin (of_int j)) = (if 0 \<le> j \<and> j < int (length xs) then Some (xs ! nat j) else None)"
proof -
  have "(real_of_int j < real (length xs)) = (j < int (length xs))"
    by linarith
  then show ?thesis by (simp add: js_index_def)
qed

lemma lerp_Fin: "lerp (Fin s) (Fin e) (Fin t) = Fin (s + (e - s) * t)"
  by (simp add: lerp_def jsub_def)

lemma interpolate_Fin:
  "interpolate positions (Fin f) =
     (case checked (if 0 \<le> \<lfloor>f\<rfloor> \<and> \<lfloor>f\<rfloor> < int (length positions)
                    then Some (positions ! nat \<lfloor>f\<rfloor>) else None) of
        None \<Rightarrow> None
      | Some cur \<Rightarrow>
          (case checked (if \<lfloor>f\<rfloor> + 1 < int (length positions)
                         then (if 0 \<le> \<lfloor>f\<rfloor> + 1 then Some (positions ! nat (\<lfloor>f\<rfloor> + 1)) else None)
                         else (if 0 \<le> \<lfloor>f\<rfloor> \<and> \<lfloor>f\<rfloor> < int (length positions)
                               then Some (positions ! nat \<lfloor>f\<rfloor>) else None)) of
             Some nxt \<Rightarrow>
               Some (Some (lerp (toNumber (cur ! 0)) (toNumber (nxt ! 0)) (Fin (f - of_int \<lfloor>f\<rfloor>))),
                     Some (lerp (toNumber (cur ! 1)) (toNumber (nxt ! 1)) (Fin (f - of_int \<lfloor>f\<rfloor>))),
                     Some (lerp (toNumber (cur ! 2)) (toNumber (nxt ! 2)) (Fin (f - of_int \<lfloor>f\<rfloor>))))
           | None \<Rightarrow> Some (cur ! 0, cur ! 1, cur ! 2)))"
proof -
  have next_idx: "jadd (Fin (of_int \<lfloor>f\<rfloor>)) (Fin 1) = Fin (of_int (\<lfloor>f\<rfloor> + 1))"
    by simp
  have lt: "jlt (Fin (of_int (\<lfloor>f\<rfloor> + 1))) (Fin (of_nat (length positions)))
              = (\<lfloor>f\<rfloor> + 1 < int (length positions))"
    by (simp del: of_int_add) linarith
  have alpha: "jsub (Fin f) (Fin (of_int \<lfloor>f\<rfloor>)) = Fin (f - of_int \<lfloor>f\<rfloor>)"
    by (simp add: jsub_def)
  have both: "(0 \<le> \<lfloor>f\<rfloor> + 1 \<and> \<lfloor>f\<rfloor> + 1 < int (length positions))
              = (\<lfloor>f\<rfloor> + 1 < int (length positions) \<and> 0 \<le> \<lfloor>f\<rfloor> + 1)"
    by blast
  show ?thesis
    unfolding interpolate_def Let_def Math_floor.simps next_idx lt alpha js_index_of_int both
    by (simp only: if_True if_False split: if_splits) auto
qed

text \<open>
  C1. At a fractional frame position \<open>f\<close> whose samples at \<open>i = \<lfloor>f\<rfloor>\<close> and \<open>i + 1\<close> are
  both arrays of three numbers, the interpolated ball position is, in each coordinate,
  \<open>a + (b - a) * t\<close> with \<open>t = f - i\<close>; \<open>t\<close> lies in \<open>[0, 1)\<close>, so the point is on the
  segment between the two samples; at \<open>t = 0\<close> it is the sample at \<open>i\<close>; and \<open>lerp\<close>
  applies no clamp, whatever \<open>t\<close> is.
\<close>

theorem interpolate_lerp:
  assumes "0 \<le> \<lfloor>f\<rfloor>" and "nat \<lfloor>f\<rfloor> + 1 < length positions"
    and "positions ! nat \<lfloor>f\<rfloor> = Some a" and "3 \<le> length a"
    and "a ! 0 = Some (Fin a0)" and "a ! 1 = Some (Fin a1)" and "a ! 2 = Some (Fin a2)"
    and "positions ! (nat \<lfloor>f\<rfloor> + 1) = Some b" and "3 \<le> length b"
    and "b ! 0 = Some (Fin b0)" and "b ! 1 = Some (Fin b1)" and "b ! 2 = Some (Fin b2)"
  shows "interpolate positions (Fin f) =
           Some (Some (Fin (a0 + (b0 - a0) * (f - of_int \<lfloor>f\<rfloor>))),
                 Some (Fin (a1 + (b1 - a1) * (f - of_int \<lfloor>f\<rfloor>))),
                 Some (Fin (a2 + (b2 - a2) * (f - of_int \<lfloor>f\<rfloor>))))
         \<and> 0 \<le> f - of_int \<lfloor>f\<rfloor> \<and> f - of_int \<lfloor>f\<rfloor> < 1
         \<and> (f = of_int \<lfloor>f\<rfloor> \<longrightarrow>
              interpolate positions (Fin f) = Some (Some (Fin a0), Some (Fin a1), Some (Fin a2)))
         \<and> (\<forall>s e t. lerp (Fin s) (Fin e) (Fin t) = Fin (s + (e - s) * t))"
proof -
  have idx: "\<lfloor>f\<rfloor> < int (length positions)" "\<lfloor>f\<rfloor> + 1 < int (length positions)"
    "nat (\<lfloor>f\<rfloor> + 1) = nat \<lfloor>f\<rfloor> + 1"
    using assms(1,2) by linarith+
  have main: "interpolate positions (Fin f) =
           Some (Some (Fin (a0 + (b0 - a0) * (f - of_int \<lfloor>f\<rfloor>))),
                 Some (Fin (a1 + (b1 - a1) * (f - of_int \<lfloor>f\<rfloor>))),
                 Some (Fin (a2 + (b2 - a2) * (f - of_int \<lfloor>f\<rfloor>))))"
    using assms idx by (simp add: interpolate_Fin checked_def toNumber_def lerp_Fin)
  have frac: "0 \<le> f - of_int \<lfloor>f\<rfloor> \<and> f - of_int \<lfloor>f\<rfloor> < 1"
    by linarith
  have at0: "f = of_int \<lfloor>f\<rfloor> \<longrightarrow>
        interpolate positions (Fin f) = Some (Some (Fin a0), Some (Fin a1), Some (Fin a2))"
  proof
    assume "f = of_int \<lfloor>f\<rfloor>"
    then have "f - of_int \<lfloor>f\<rfloor> = 0" by simp
    with main show "interpolate positions (Fin f) = Some (Some (Fin a0), Some (Fin a1), Some (Fin a2))"
      by simp
  qed
  from main frac at0 lerp_Fin show ?thesis by blast
qed

theorem interpolate_lerp_witness:
  "interpolate [Some [Some (Fin 1), Some (Fin 2), Some (Fin 3)],
                Some [Some (Fin 3), Some (Fin 6), Some (Fin 5)]] (Fin (1 / 4))
     = Some (Some (Fin (3 / 2)), Some (Fin 3), Some (Fin (7 / 2)))
   \<and> interpolate [Some [Some (Fin 1), Some (Fin 2), Some (Fin 3)],
                  Some [Some (Fin 3), Some (Fin 6), Some (Fin 5)]] (Fin 0)
     = Some (Some (Fin 1), Some (Fin 2), Some (Fin 3))"
proof -
  let ?ps = "[Some [Some (Fin 1), Some (Fin 2), Some (Fin 3)],
              Some [Some (Fin 3), Some (Fin 6), Some (Fin 5)]]"
  have fl: "\<lfloor>1 / 4 :: real\<rfloor> = 0" by simp
  have one: "interpolate ?ps (Fin (1 / 4)) = Some (Some (Fin (3 / 2)), Some (Fin 3), Some (Fin (7 / 2)))"
    using interpolate_lerp [of "1 / 4" ?ps "[Some (Fin 1), Some (Fin 2), Some (Fin 3)]" 1 2 3
        "[Some (Fin 3), Some (Fin 6), Some (Fin 5)]" 3 6 5]
    by (simp add: fl)
  have two: "interpolate ?ps (Fin 0) = Some (Some (Fin 1), Some (Fin 2), Some (Fin 3))"
    using interpolate_lerp [of 0 ?ps "[Some (Fin 1), Some (Fin 2), Some (Fin 3)]" 1 2 3
        "[Some (Fin 3), Some (Fin 6), Some (Fin 5)]" 3 6 5]
    by simp
  from one two show ?thesis by simp
qed


lemma clamp01_Fin: "Math_max (Fin 0) (Math_min (Fin 1) (Fin v)) = Fin (max 0 (min 1 v))"
  by (auto simp: Math_max_def Math_min_def max_def min_def)

lemma js_index_floor_cases:
  "js_index xs (Math_floor (Fin f)) =
     (if 0 \<le> \<lfloor>f\<rfloor> \<and> \<lfloor>f\<rfloor> < int (length xs) then Some (xs ! nat \<lfloor>f\<rfloor>) else None)"
  by (simp add: js_index_of_int)

text \<open>
  C3. With 3D positions supplied and the net-view ball present: when the sample at
  \<open>i = \<lfloor>f\<rfloor>\<close> is \<^verbatim>\<open>null\<close> or missing there is no interpolated position and the net
  view is hidden; when the sample at \<open>i\<close> is an array of three numbers and the sample at
  \<open>i + 1\<close> is \<^verbatim>\<open>null\<close> or out of range, the position is the sample at \<open>i\<close> and the
  marker is drawn from it.
\<close>

theorem ball_gap_handling:
  assumes "ball3dPositions p = Some positions" and "netBallRef d"
  shows "(js_index positions (Math_floor (Fin f)) = None
            \<or> js_index positions (Math_floor (Fin f)) = Some None
          \<longrightarrow> interpolate positions (Fin f) = None \<and> net_view_update p d (Fin f) = NetHidden)
       \<and> (0 \<le> \<lfloor>f\<rfloor> \<and> nat \<lfloor>f\<rfloor> < length positions \<and> positions ! nat \<lfloor>f\<rfloor> = Some a
            \<and> 3 \<le> length a \<and> a ! 0 = Some (Fin a0) \<and> a ! 1 = Some (Fin a1) \<and> a ! 2 = Some (Fin a2)
            \<and> (length positions \<le> nat \<lfloor>f\<rfloor> + 1 \<or> positions ! (nat \<lfloor>f\<rfloor> + 1) = None)
          \<longrightarrow> interpolate positions (Fin f) = Some (Some (Fin a0), Some (Fin a1), Some (Fin a2))
              \<and> (\<exists>cx cy r. net_view_update p d (Fin f)
                             = NetShown cx cy r (ball_label d (showBallHeight p) (Some (Fin a2)) cx cy r)
                    \<and> cx = Fin (courtStartX + a0 * SCALE)
                    \<and> cy = Fin (groundY - a2 * SCALE)
                    \<and> r = Fin (10 - max 0 (min 1 (a1 / 18)) * 5)))"
proof (intro conjI impI)
  assume gap: "js_index positions (Math_floor (Fin f)) = None
                 \<or> js_index positions (Math_floor (Fin f)) = Some None"
  then have "checked (if 0 \<le> \<lfloor>f\<rfloor> \<and> \<lfloor>f\<rfloor> < int (length positions)
                       then Some (positions ! nat \<lfloor>f\<rfloor>) else None) = None"
    unfolding js_index_floor_cases by (auto simp: checked_def)
  then show none: "interpolate positions (Fin f) = None"
    by (simp add: interpolate_Fin)
  then show "net_view_update p d (Fin f) = NetHidden"
    using assms by (simp add: net_view_update_def)
next
  assume h: "0 \<le> \<lfloor>f\<rfloor> \<and> nat \<lfloor>f\<rfloor> < length positions \<and> positions ! nat \<lfloor>f\<rfloor> = Some a
            \<and> 3 \<le> length a \<and> a ! 0 = Some (Fin a0) \<and> a ! 1 = Some (Fin a1) \<and> a ! 2 = Some (Fin a2)
            \<and> (length positions \<le> nat \<lfloor>f\<rfloor> + 1 \<or> positions ! (nat \<lfloor>f\<rfloor> + 1) = None)"
  then have idx: "\<lfloor>f\<rfloor> < int (length positions)" "nat (\<lfloor>f\<rfloor> + 1) = nat \<lfloor>f\<rfloor> + 1"
    by linarith+
  have cur: "checked (Some (positions ! nat \<lfloor>f\<rfloor>)) = Some a"
    using h by (simp add: checked_def)
  show hold: "interpolate positions (Fin f) = Some (Some (Fin a0), Some (Fin a1), Some (Fin a2))"
  proof (cases "\<lfloor>f\<rfloor> + 1 < int (length positions)")
    case True
    with h have "positions ! (nat \<lfloor>f\<rfloor> + 1) = None" by linarith
    then have "checked (Some (positions ! nat (\<lfloor>f\<rfloor> + 1))) = None"
      by (simp add: idx checked_def)
    with True h idx cur show ?thesis
      by (simp add: interpolate_Fin)
  next
    case False
    with h idx cur show ?thesis
      by (simp add: interpolate_Fin toNumber_def lerp_Fin)
  qed
  have "net_view_update p d (Fin f)
          = NetShown (Fin (courtStartX + a0 * SCALE)) (Fin (groundY - a2 * SCALE))
              (Fin (10 - max 0 (min 1 (a1 / 18)) * 5))
              (ball_label d (showBallHeight p) (Some (Fin a2))
                 (Fin (courtStartX + a0 * SCALE)) (Fin (groundY - a2 * SCALE))
                 (Fin (10 - max 0 (min 1 (a1 / 18)) * 5)))"
    using assms hold
    by (simp add: net_view_update_def toNumber_def m2px_def jsub_def clamp01_Fin Let_def)
  then show "\<exists>cx cy r. net_view_update p d (Fin f)
                             = NetShown cx cy r (ball_label d (showBallHeight p) (Some (Fin a2)) cx cy r)
                    \<and> cx = Fin (courtStartX + a0 * SCALE)
                    \<and> cy = Fin (groundY - a2 * SCALE)
                    \<and> r = Fin (10 - max 0 (min 1 (a1 / 18)) * 5)"
    by blast
qed

theorem ball_gap_handling_witness:
  "net_view_update example_props example_dom (Fin (5 / 4)) = NetHidden
   \<and> net_view_update example_props example_dom (Fin 7) = NetHidden
   \<and> interpolate [Some [Some (Fin 1), Some (Fin 2), Some (Fin 3)], None] (Fin (1 / 4))
       = Some (Some (Fin 1), Some (Fin 2), Some (Fin 3))
   \<and> interpolate [Some [Some (Fin 1), Some (Fin 2), Some (Fin 3)], None] (Fin (5 / 4)) = None
   \<and> interpolate [Some [Some (Fin 1), Some (Fin 2), Some (Fin 3)]] (Fin (1 / 4))
       = Some (Some (Fin 1), Some (Fin 2), Some (Fin 3))"
proof -
  let ?ps = "[Some [Some (Fin 1), Some (Fin 2), Some (Fin 3)], None]"
  let ?qs = "[Some [Some (Fin 1), Some (Fin 2), Some (Fin 3)]]"
  have p: "ball3dPositions example_props = Some ?ps" "netBallRef example_dom"
    by (simp_all add: example_props_def example_dom_def)
  have q: "ball3dPositions (example_props\<lparr>ball3dPositions := Some ?qs\<rparr>) = Some ?qs"
    by simp
  have fl: "\<lfloor>5 / 4 :: real\<rfloor> = 1" "\<lfloor>1 / 4 :: real\<rfloor> = 0" by simp_all
  have a: "net_view_update example_props example_dom (Fin (5 / 4)) = NetHidden
           \<and> interpolate ?ps (Fin (5 / 4)) = None"
    using ball_gap_handling [OF p, of "5 / 4"] by (simp add: js_index_def fl)
  have b: "net_view_update example_props example_dom (Fin 7) = NetHidden"
    using ball_gap_handling [OF p, of 7] by (simp add: js_index_def)
  have c: "interpolate ?ps (Fin (1 / 4)) = Some (Some (Fin 1), Some (Fin 2), Some (Fin 3))"
    using ball_gap_handling [OF p, of "1 / 4" "[Some (Fin 1), Some (Fin 2), Some (Fin 3)]" 1 2 3]
    by (simp add: fl)
  have d: "interpolate ?qs (Fin (1 / 4)) = Some (Some (Fin 1), Some (Fin 2), Some (Fin 3))"
    using ball_gap_handling [OF q p(2), of "1 / 4" "[Some (Fin 1), Some (Fin 2), Some (Fin 3)]" 1 2 3]
    by (simp add: fl)
  from a b c d show ?thesis by simp
qed

text \<open>A redraw that is not skipped updates the net view at the exact frame \<open>currentTime * fps\<close>.\<close>

lemma draw_net:
  assumes "draw p d = Inr (Drawn fr)"
  shows "\<exists>v. videoRef d = Some v
           \<and> net fr = net_view_update p d (jmul (Fin (currentTime v)) (Fin (fps (metadata p))))"
  using assms
  by (auto simp: draw_def Let_def split: option.splits prod.splits if_splits sum.splits)



section \<open>Properties of the calibration handles\<close>

lemma isNormalized_Some:
  "isNormalized cs = Some n \<longleftrightarrow> (\<exists>x0 y0 rest. cs = Present (x0, y0) # rest \<and> n = jlt x0 (Fin 2))"
  by (auto simp: isNormalized_def split: list.splits slot.splits)

lemma handleGlobalMove_value:
  assumes "avgCourtCorners p = Some cs" and "isNormalized cs = Some n"
  shows "handleGlobalMove p (Some i) (Some r) e =
           Inr (Some (i,
             if n then
               (Math_max (Fin 0) (Math_min (Fin 1) (jdiv (Fin (clientX e - rect_left r)) (Fin (rect_width r)))),
                Math_max (Fin 0) (Math_min (Fin 1) (jdiv (Fin (clientY e - rect_top r)) (Fin (rect_height r)))))
             else
               (jmul (Math_max (Fin 0) (Math_min (Fin 1) (jdiv (Fin (clientX e - rect_left r)) (Fin (rect_width r)))))
                  (Fin (width (metadata p))),
                jmul (Math_max (Fin 0) (Math_min (Fin 1) (jdiv (Fin (clientY e - rect_top r)) (Fin (rect_height r)))))
                  (Fin (height (metadata p))))))"
  using assms by (simp add: handleGlobalMove_def Let_def jsub_def)

lemma example_corners:
  "avgCourtCorners example_props
     = Some [Present (Fin 100, Fin 50), Present (Fin 500, Fin 50), Present (Fin 500, Fin 300), Present (Fin 100, Fin 300)]"
  "metadata example_props = example_metadata"
  by (simp_all add: example_props_def)

lemma spread_no_hole: "Hole \<notin> set cs \<Longrightarrow> spread cs = cs"
  by (induction cs) (auto simp: spread_def split: slot.splits)

lemma spread_nth:
  "j < length cs \<Longrightarrow> cs ! j \<noteq> Hole \<Longrightarrow> spread cs ! j = cs ! j"
  by (simp add: spread_def split: slot.splits)

text \<open>
  A pointer-move while handle \<open>i\<close> is dragged writes the converted pointer position at
  index \<open>i\<close> and nothing else: the array keeps its length and every other entry; only a
  hole becomes \<^verbatim>\<open>undefined\<close> in the copy.
\<close>

lemma pointer_move_writes_index:
  assumes "avgCourtCorners p = Some cs" and "isNormalized cs = Some n" and "i < length cs"
  shows "\<exists>v cs'.
           handleGlobalMove p (Some i) (Some r) e = Inr (Some (i, v))
         \<and> pointer_move p (Some i) (Some r) e = p\<lparr>avgCourtCorners := Some cs'\<rparr>
         \<and> length cs' = length cs
         \<and> cs' ! i = Present v
         \<and> (\<forall>j. j \<noteq> i \<and> j < length cs \<and> cs ! j \<noteq> Hole \<longrightarrow> cs' ! j = cs ! j)"
proof -
  from handleGlobalMove_value [OF assms(1,2), of i r e] obtain v where
    h: "handleGlobalMove p (Some i) (Some r) e = Inr (Some (i, v))"
    by blast
  have i: "i < length (spread cs)" using assms(3) by (simp add: spread_def)
  have u: "update_corner i v (Some cs) = Some ((spread cs)[i := Present v])"
    using i by (simp add: update_corner_def Let_def)
  have pm: "pointer_move p (Some i) (Some r) e
              = p\<lparr>avgCourtCorners := Some ((spread cs)[i := Present v])\<rparr>"
    unfolding pointer_move_def h using assms(1) u by simp
  have len: "length ((spread cs)[i := Present v]) = length cs" by (simp add: spread_def)
  have at: "(spread cs)[i := Present v] ! i = Present v" using i by simp
  have others: "\<forall>j. j \<noteq> i \<and> j < length cs \<and> cs ! j \<noteq> Hole
                  \<longrightarrow> (spread cs)[i := Present v] ! j = cs ! j"
    by (simp add: spread_nth)
  from h pm len at others show ?thesis by blast
qed

text \<open>
  C2. A pointer-move while handle \<open>i\<close> is dragged replaces only index \<open>i\<close> of the corner
  array, by the pointer position clamped to \<open>[0, 1]\<close> on each axis. The code misses the
  clamp when the overlay has size \<open>0 \<times> 0\<close> and the pointer is on its corner: \<open>0 / 0\<close> is NaN,
  which \<^verbatim>\<open>Math.max(0, Math.min(1, .))\<close> returns unchanged, and the pointer-move writes
  \<open>(NaN, NaN)\<close> at index 0, in normalized and in pixel representation. The other three
  entries stay as they are.
\<close>

theorem zero_overlay_writes_NaN:
  "pointer_move normalized_props (Some 0) (Some zero_rect) move_on_corner
     = normalized_props\<lparr>avgCourtCorners :=
         Some [Present (NaN, NaN), Present (Fin (9 / 10), Fin (1 / 10)),
               Present (Fin (9 / 10), Fin (9 / 10)), Present (Fin (1 / 10), Fin (9 / 10))]\<rparr>
   \<and> pointer_move example_props (Some 0) (Some zero_rect) move_on_corner
     = example_props\<lparr>avgCourtCorners :=
         Some [Present (NaN, NaN), Present (Fin 500, Fin 50),
               Present (Fin 500, Fin 300), Present (Fin 100, Fin 300)]\<rparr>"
  by (simp add: pointer_move_def handleGlobalMove_def isNormalized_def update_corner_def spread_def
        normalized_props_def example_props_def example_metadata_def zero_rect_def move_on_corner_def
        Math_max_def Math_min_def jsub_def Let_def)

text \<open>
  C10. With the corners in pixel representation (the first point's \<open>x\<close> is at least 2), an
  overlay of positive width and height and a video of non-negative width and height, the
  corner that a pointer-move writes lies in \<open>[0, width] \<times> [0, height]\<close>.
\<close>

theorem drag_pixel_corner_in_bounds:
  assumes "avgCourtCorners p = Some (Present (Fin x0, y0) # rest)" and "2 \<le> x0"
    and "0 < rect_width r" and "0 < rect_height r"
    and "0 \<le> width (metadata p)" and "0 \<le> height (metadata p)"
  shows "\<exists>u v. handleGlobalMove p (Some i) (Some r) e = Inr (Some (i, (Fin u, Fin v)))
           \<and> 0 \<le> u \<and> u \<le> width (metadata p) \<and> 0 \<le> v \<and> v \<le> height (metadata p)"
proof -
  have n: "isNormalized (Present (Fin x0, y0) # rest) = Some False"
    using assms(2) by (simp add: isNormalized_def)
  define a where "a = max 0 (min 1 ((clientX e - rect_left r) / rect_width r))"
  define b where "b = max 0 (min 1 ((clientY e - rect_top r) / rect_height r))"
  have ab: "0 \<le> a" "a \<le> 1" "0 \<le> b" "b \<le> 1"
    by (simp_all add: a_def b_def)
  have cx: "Math_max (Fin 0) (Math_min (Fin 1) (jdiv (Fin (clientX e - rect_left r)) (Fin (rect_width r)))) = Fin a"
    using assms(3) by (simp add: a_def Math_max_def Math_min_def max_def min_def)
  have cy: "Math_max (Fin 0) (Math_min (Fin 1) (jdiv (Fin (clientY e - rect_top r)) (Fin (rect_height r)))) = Fin b"
    using assms(4) by (simp add: b_def Math_max_def Math_min_def max_def min_def)
  have h: "handleGlobalMove p (Some i) (Some r) e
             = Inr (Some (i, (Fin (a * width (metadata p)), Fin (b * height (metadata p)))))"
    unfolding handleGlobalMove_value [OF assms(1) n] cx cy by simp
  have "0 \<le> a * width (metadata p)" "a * width (metadata p) \<le> width (metadata p)"
       "0 \<le> b * height (metadata p)" "b * height (metadata p) \<le> height (metadata p)"
    using ab assms(5,6) by (simp_all add: mult_left_le_one_le)
  with h show ?thesis by blast
qed

theorem drag_pixel_corner_in_bounds_witness:
  "handleGlobalMove example_props (Some 1) (Some example_rect) \<lparr>clientX = 900, clientY = 90\<rparr>
     = Inr (Some (1, (Fin 640, Fin 90)))"
proof -
  from drag_pixel_corner_in_bounds [of example_props 100 "Fin 50"
        "[Present (Fin 500, Fin 50), Present (Fin 500, Fin 300), Present (Fin 100, Fin 300)]" example_rect
        1 "\<lparr>clientX = 900, clientY = 90\<rparr>"]
  obtain u v where
    "handleGlobalMove example_props (Some 1) (Some example_rect) \<lparr>clientX = 900, clientY = 90\<rparr>
       = Inr (Some (1, (Fin u, Fin v)))"
    and "0 \<le> u \<and> u \<le> 640 \<and> 0 \<le> v \<and> v \<le> 360"
    by (auto simp: example_corners example_metadata_def example_rect_def)
  moreover have "handleGlobalMove example_props (Some 1) (Some example_rect) \<lparr>clientX = 900, clientY = 90\<rparr>
       = Inr (Some (1, (Fin 640, Fin 90)))"
    by (simp add: handleGlobalMove_def isNormalized_def example_corners example_metadata_def
          example_rect_def Math_max_def Math_min_def jsub_def)
  ultimately show ?thesis by simp
qed


lemma handleGlobalMove_Some_state:
  assumes "handleGlobalMove p di ov e = Inr (Some (idx, v))"
  shows "\<exists>cs n. avgCourtCorners p = Some cs \<and> isNormalized cs = Some n"
  using assms
  by (auto simp: handleGlobalMove_def Let_def split: option.splits if_splits)

lemma isNormalized_update_corner:
  assumes "idx \<noteq> 0" and "isNormalized cs = Some n"
  shows "map_option isNormalized (update_corner idx v (Some cs)) = Some (Some n)"
proof -
  from assms(2) obtain x0 y0 rest where cs: "cs = Present (x0, y0) # rest" and n: "n = jlt x0 (Fin 2)"
    by (auto simp: isNormalized_Some)
  from assms(1) obtain k where k: "idx = Suc k" by (cases idx) auto
  show ?thesis
    by (simp add: update_corner_def spread_def Let_def cs n k isNormalized_def)
qed

lemma pointer_move_keeps_heuristic:
  assumes "idx \<noteq> 0"
  shows "map_option isNormalized (avgCourtCorners (pointer_move p (Some idx) r e))
           = map_option isNormalized (avgCourtCorners p)"
proof (cases "handleGlobalMove p (Some idx) r e")
  case (Inl err)
  then show ?thesis by (simp add: pointer_move_def)
next
  case (Inr res)
  show ?thesis
  proof (cases res)
    case None
    with Inr show ?thesis by (simp add: pointer_move_def)
  next
    case (Some iv)
    obtain j v where iv: "iv = (j, v)" by (cases iv)
    from Inr Some iv have h: "handleGlobalMove p (Some idx) r e = Inr (Some (j, v))" by simp
    then have j: "j = idx"
      by (auto simp: handleGlobalMove_def Let_def split: option.splits if_splits)
    from handleGlobalMove_Some_state [OF h] obtain cs n where
      cs: "avgCourtCorners p = Some cs" "isNormalized cs = Some n" by blast
    show ?thesis
      using isNormalized_update_corner [OF assms cs(2), of v] cs
      by (simp add: pointer_move_def h j)
  qed
qed

lemma drag_keeps_heuristic:
  assumes "idx \<noteq> 0"
  shows "map_option isNormalized (avgCourtCorners (drag p idx moves))
           = map_option isNormalized (avgCourtCorners p)"
proof (induction moves arbitrary: p)
  case Nil
  show ?case by simp
next
  case (Cons m moves)
  obtain r e where m: "m = (r, e)" by (cases m)
  show ?case
    by (simp add: m Cons.IH pointer_move_keeps_heuristic [OF assms])
qed

text \<open>
  C5 fails as stated: the representation is not captured at drag start. In the drag of
  handle 0 below the corners start in pixel representation, where the pointer at the
  centre of the overlay converts to \<open>(320, 180)\<close>; the first move puts the handle on the
  left edge, \<open>x = 0\<close>, after which the same pointer position converts to
  \<open>(1/2, 1/2)\<close>.
\<close>

theorem heuristic_recomputed_counterexample:
  "handleGlobalMove example_props (Some 0) (Some example_rect) move_centre
     = Inr (Some (0, (Fin 320, Fin 180)))
   \<and> avgCourtCorners (drag example_props 0 [(Some example_rect, move_left_edge)])
     = Some [Present (Fin 0, Fin 50), Present (Fin 500, Fin 50), Present (Fin 500, Fin 300), Present (Fin 100, Fin 300)]
   \<and> handleGlobalMove (drag example_props 0 [(Some example_rect, move_left_edge)])
        (Some 0) (Some example_rect) move_centre
     = Inr (Some (0, (Fin (1 / 2), Fin (1 / 2))))"
  by (simp add: pointer_move_def handleGlobalMove_def isNormalized_def update_corner_def spread_def
        example_props_def example_metadata_def example_rect_def move_centre_def move_left_edge_def
        Math_max_def Math_min_def jsub_def Let_def)

text \<open>
  C5, amended. Every pointer-move applies the heuristic to the first point of the corners
  current at that move. A drag of a handle other than handle 0 never writes that point,
  so over such a drag the representation stays what it was at drag start.
\<close>

theorem drag_heuristic_per_move:
  "(idx \<noteq> 0 \<longrightarrow>
      map_option isNormalized (avgCourtCorners (drag p idx moves))
        = map_option isNormalized (avgCourtCorners p))
   \<and> (avgCourtCorners p = Some cs \<and> isNormalized cs = Some n \<longrightarrow>
        handleGlobalMove p (Some idx) (Some r) e =
          Inr (Some (idx,
            if n then
              (Math_max (Fin 0) (Math_min (Fin 1) (jdiv (Fin (clientX e - rect_left r)) (Fin (rect_width r)))),
               Math_max (Fin 0) (Math_min (Fin 1) (jdiv (Fin (clientY e - rect_top r)) (Fin (rect_height r)))))
            else
              (jmul (Math_max (Fin 0) (Math_min (Fin 1) (jdiv (Fin (clientX e - rect_left r)) (Fin (rect_width r)))))
                 (Fin (width (metadata p))),
               jmul (Math_max (Fin 0) (Math_min (Fin 1) (jdiv (Fin (clientY e - rect_top r)) (Fin (rect_height r)))))
                 (Fin (height (metadata p)))))))"
  using drag_keeps_heuristic [of idx p moves] handleGlobalMove_value [of p cs n idx r e]
  by blast

theorem drag_heuristic_per_move_witness:
  "map_option isNormalized
     (avgCourtCorners (drag example_props 2
        [(Some example_rect, move_left_edge), (Some example_rect, move_centre)]))
     = Some (Some False)
   \<and> handleGlobalMove example_props (Some 2) (Some example_rect) move_centre
     = Inr (Some (2, (Fin 320, Fin 180)))"
  using drag_heuristic_per_move [of 2 example_props
      "[(Some example_rect, move_left_edge), (Some example_rect, move_centre)]"
      "[Present (Fin 100, Fin 50), Present (Fin 500, Fin 50), Present (Fin 500, Fin 300), Present (Fin 100, Fin 300)]"
      False example_rect move_centre]
  by (simp add: example_corners isNormalized_def example_metadata_def example_rect_def move_centre_def
        Math_max_def Math_min_def)



section \<open>Division by a dimension that is zero\<close>

lemma draw_zero_width: "width (metadata p) = 0 \<Longrightarrow> draw p d = Inr Skipped"
  by (simp add: draw_def truthy_def isNaN_def Let_def split: option.splits prod.splits)

lemma draw_result_cases:
  assumes "videoRef d = Some v" and "canvasRef d = Some c" and "parentElement c = Some (cw, ch)"
    and "context2d c" and "0 < width (metadata p)" and "0 < height (metadata p)"
  shows "draw p d = Inl TypeError
         \<or> (\<exists>fr. draw p d = Inr (Drawn fr)
               \<and> renderWidth fr = (if ch < cw / (width (metadata p) / height (metadata p))
                                    then Fin (ch * (width (metadata p) / height (metadata p))) else Fin cw)
               \<and> renderHeight fr = (if ch < cw / (width (metadata p) / height (metadata p))
                                     then Fin ch else Fin (cw / (width (metadata p) / height (metadata p)))))"
proof -
  have ar: "jdiv (Fin (width (metadata p))) (Fin (height (metadata p)))
              = Fin (width (metadata p) / height (metadata p))"
    using assms(6) by simp
  have pos: "width (metadata p) / height (metadata p) \<noteq> 0"
    using assms(5,6) by simp
  have err: "\<And>a::error. a = TypeError" by (case_tac a) simp
  show ?thesis
    using assms(1-4) pos
    by (auto simp: draw_def ar truthy_def isNaN_def Let_def jgt_def err
             split: prod.splits sum.splits)
qed

lemma drag_finite_corner:
  assumes "0 < rect_width r" and "0 < rect_height r"
    and "handleGlobalMove p (Some i) (Some r) e = Inr (Some (j, (vx, vy)))"
  shows "\<exists>a b. vx = Fin a \<and> vy = Fin b"
proof -
  from handleGlobalMove_Some_state [OF assms(3)] obtain cs n where
    cs: "avgCourtCorners p = Some cs" "isNormalized cs = Some n" by blast
  have cx: "Math_max (Fin 0) (Math_min (Fin 1) (jdiv (Fin (clientX e - rect_left r)) (Fin (rect_width r))))
              = Fin (max 0 (min 1 ((clientX e - rect_left r) / rect_width r)))"
    using assms(1) by (simp add: clamp01_Fin)
  have cy: "Math_max (Fin 0) (Math_min (Fin 1) (jdiv (Fin (clientY e - rect_top r)) (Fin (rect_height r))))
              = Fin (max 0 (min 1 ((clientY e - rect_top r) / rect_height r)))"
    using assms(2) by (simp add: clamp01_Fin)
  from assms(3) show ?thesis
    unfolding handleGlobalMove_value [OF cs] cx cy by (cases n) auto
qed

text \<open>
  C6 fails as stated. With a container of size \<open>0 \<times> 0\<close> the redraw is not skipped: the
  canvas is sized \<open>0 \<times> 0\<close> and the frame and the court polygon are drawn. With an overlay
  of size \<open>0 \<times> 0\<close> and the pointer on its corner, the quotient \<open>0 / 0\<close> passes the clamp and
  the corner \<open>(NaN, NaN)\<close> is written.
\<close>

theorem zero_container_counterexample:
  "draw (example_props\<lparr>ball3dPositions := None\<rparr>) zero_container_dom
     = Inr (Drawn \<lparr>renderWidth = Fin 0, renderHeight = Fin 0, topOffset = Fin 0, leftOffset = Fin 0,
                  ops = [DrawImage (Fin 0) (Fin 0),
                         CourtPolygon [MoveTo (Fin 0) (Fin 0), LineTo (Fin 0) (Fin 0),
                                       LineTo (Fin 0) (Fin 0), LineTo (Fin 0) (Fin 0)]],
                  net = NetUnchanged\<rparr>)
   \<and> handleGlobalMove example_props (Some 0) (Some zero_rect) move_on_corner
     = Inr (Some (0, (NaN, NaN)))"
proof -
  have a: "draw (example_props\<lparr>ball3dPositions := None\<rparr>) zero_container_dom
     = Inr (Drawn \<lparr>renderWidth = Fin 0, renderHeight = Fin 0, topOffset = Fin 0, leftOffset = Fin 0,
                  ops = [DrawImage (Fin 0) (Fin 0),
                         CourtPolygon [MoveTo (Fin 0) (Fin 0), LineTo (Fin 0) (Fin 0),
                                       LineTo (Fin 0) (Fin 0), LineTo (Fin 0) (Fin 0)]],
                  net = NetUnchanged\<rparr>)"
    by (simp add: draw_def example_props_def example_dom_def zero_container_dom_def example_metadata_def
          truthy_def isNormalized_def isNaN_def Let_def jgt_def jsub_def getCanvasScale_def draw_court_def
          draw_ball_def draw_players_def draw_action_def map_get_def ballTracksMap_def actionFrameMap_def
          drawCourtPolygon_def polygon_path_def scale_slot_def net_view_update_def enumerate_eq_zip
          upt_rec)
  have b: "handleGlobalMove example_props (Some 0) (Some zero_rect) move_on_corner
             = Inr (Some (0, (NaN, NaN)))"
    by (simp add: handleGlobalMove_def example_props_def zero_rect_def move_on_corner_def
          isNormalized_def Let_def jsub_def Math_max_def Math_min_def example_metadata_def)
  from a b show ?thesis by simp
qed

text \<open>
  C6, amended. A video width of zero, which makes the aspect ratio zero or NaN, skips the
  redraw. A container with a zero width or height does not: \<^verbatim>\<open>draw\<close> divides by no
  container dimension and, for a video of positive width and height, sizes the canvas
  \<open>0 \<times> 0\<close> and goes on. A pointer-move over an overlay of positive width and height writes
  a corner of two finite numbers.
\<close>

theorem division_guards:
  "(width (metadata p) = 0 \<longrightarrow> draw p d = Inr Skipped)
   \<and> (0 < width (metadata p) \<and> 0 < height (metadata p)
        \<and> videoRef d = Some v \<and> canvasRef d = Some c \<and> parentElement c = Some (cw, ch) \<and> context2d c
        \<and> 0 \<le> cw \<and> 0 \<le> ch \<and> (cw = 0 \<or> ch = 0)
      \<longrightarrow> draw p d \<noteq> Inr Skipped
          \<and> (\<forall>fr. draw p d = Inr (Drawn fr) \<longrightarrow> renderWidth fr = Fin 0 \<and> renderHeight fr = Fin 0))
   \<and> (0 < rect_width r \<and> 0 < rect_height r
        \<and> handleGlobalMove p (Some i) (Some r) e = Inr (Some (j, (vx, vy)))
      \<longrightarrow> (\<exists>a b. vx = Fin a \<and> vy = Fin b))"
proof (intro conjI impI)
  assume "width (metadata p) = 0"
  then show "draw p d = Inr Skipped" by (rule draw_zero_width)
next
  assume h: "0 < width (metadata p) \<and> 0 < height (metadata p)
        \<and> videoRef d = Some v \<and> canvasRef d = Some c \<and> parentElement c = Some (cw, ch) \<and> context2d c
        \<and> 0 \<le> cw \<and> 0 \<le> ch \<and> (cw = 0 \<or> ch = 0)"
  let ?ar = "width (metadata p) / height (metadata p)"
  have ar: "0 < ?ar" using h by simp
  from h have cases: "draw p d = Inl TypeError
         \<or> (\<exists>fr. draw p d = Inr (Drawn fr)
               \<and> renderWidth fr = (if ch < cw / ?ar then Fin (ch * ?ar) else Fin cw)
               \<and> renderHeight fr = (if ch < cw / ?ar then Fin ch else Fin (cw / ?ar)))"
    using draw_result_cases [of d v c cw ch p] by blast
  then show "draw p d \<noteq> Inr Skipped" by auto
  show "\<forall>fr. draw p d = Inr (Drawn fr) \<longrightarrow> renderWidth fr = Fin 0 \<and> renderHeight fr = Fin 0"
  proof (intro allI impI)
    fix fr assume fr: "draw p d = Inr (Drawn fr)"
    with cases have dims: "renderWidth fr = (if ch < cw / ?ar then Fin (ch * ?ar) else Fin cw)"
      "renderHeight fr = (if ch < cw / ?ar then Fin ch else Fin (cw / ?ar))"
      by auto
    show "renderWidth fr = Fin 0 \<and> renderHeight fr = Fin 0"
    proof (cases "cw = 0")
      case True
      with h dims show ?thesis by auto
    next
      case False
      with h have ch: "ch = 0" and cw: "0 < cw" by auto
      then have "ch < cw / ?ar" using divide_pos_pos [OF cw ar] by simp
      with dims ch show ?thesis by simp
    qed
  qed
next
  assume "0 < rect_width r \<and> 0 < rect_height r
        \<and> handleGlobalMove p (Some i) (Some r) e = Inr (Some (j, (vx, vy)))"
  then show "\<exists>a b. vx = Fin a \<and> vy = Fin b"
    using drag_finite_corner by blast
qed


theorem division_guards_witness:
  "draw (example_props\<lparr>metadata := example_metadata\<lparr>width := 0\<rparr>\<rparr>) example_dom = Inr Skipped
   \<and> draw (example_props\<lparr>ball3dPositions := None\<rparr>) zero_container_dom \<noteq> Inr Skipped
   \<and> 0 < rect_width example_rect \<and> 0 < rect_height example_rect
   \<and> handleGlobalMove example_props (Some 2) (Some example_rect) move_centre
       = Inr (Some (2, (Fin 320, Fin 180)))"
proof -
  have a: "draw (example_props\<lparr>metadata := example_metadata\<lparr>width := 0\<rparr>\<rparr>) example_dom = Inr Skipped"
    using division_guards [of "example_props\<lparr>metadata := example_metadata\<lparr>width := 0\<rparr>\<rparr>" example_dom]
    by simp
  have b: "draw (example_props\<lparr>ball3dPositions := None\<rparr>) zero_container_dom \<noteq> Inr Skipped"
    using division_guards [of "example_props\<lparr>ball3dPositions := None\<rparr>" zero_container_dom
        "\<lparr>currentTime = 0, readyState = 4\<rparr>" "\<lparr>parentElement = Some (0, 0), context2d = True\<rparr>" 0 0]
    by (simp add: example_props_def example_metadata_def zero_container_dom_def example_dom_def)
  have h: "handleGlobalMove example_props (Some 2) (Some example_rect) move_centre
             = Inr (Some (2, (Fin 320, Fin 180)))"
    by (simp add: handleGlobalMove_def isNormalized_def example_props_def example_metadata_def
          example_rect_def move_centre_def Math_max_def Math_min_def jsub_def Let_def)
  have c: "\<exists>a b. Fin 320 = Fin a \<and> Fin 180 = Fin b"
    using division_guards [of example_props example_dom _ _ _ _ example_rect 2 move_centre 2
        "Fin 320" "Fin 180"] h
    by (simp add: example_rect_def)
  from a b c h show ?thesis by (simp add: example_rect_def)
qed



section \<open>Malformed court corners\<close>

lemma concat_enumerate_length:
  "length (concat (map (\<lambda>(i, slot). case slot of Present c \<Rightarrow> [g i c] | _ \<Rightarrow> []) (enumerate n cs)))
     = length (filter (\<lambda>s. s \<noteq> Hole \<and> s \<noteq> Undefined) cs)"
  by (induction cs arbitrary: n) (auto split: slot.splits)

lemma polygon_path_length:
  "length (polygon_path cs sx sy) = length (filter (\<lambda>s. s \<noteq> Hole \<and> s \<noteq> Undefined) cs)"
proof -
  have "polygon_path cs sx sy
          = concat (map (\<lambda>(i, slot). case slot of
                            Present c \<Rightarrow> [(\<lambda>i (x, y). if i = 0 then MoveTo (jmul x sx) (jmul y sy)
                                                     else LineTo (jmul x sx) (jmul y sy)) i c]
                          | _ \<Rightarrow> [])
                        (enumerate 0 cs))"
    unfolding polygon_path_def
    by (intro arg_cong [where f = concat] map_cong refl) (auto split: slot.splits)
  then show ?thesis by (simp only: concat_enumerate_length)
qed

lemma filter_no_undefined:
  "Undefined \<notin> set cs \<Longrightarrow>
     filter (\<lambda>s. s \<noteq> Hole \<and> s \<noteq> Undefined) cs = filter (\<lambda>s. s \<noteq> Hole) cs"
  by (induction cs) auto

lemma scale_slot_kind [simp]:
  "(scale_slot md s = Hole) = (s = Hole)" "(scale_slot md s = Undefined) = (s = Undefined)"
  by (auto simp: scale_slot_def split: slot.splits)

lemma scale_slot_undefined:
  "Undefined \<in> set (map (scale_slot md) cs) \<longleftrightarrow> Undefined \<in> set cs"
  by (induction cs) (auto simp: eq_commute [of Undefined])

lemma scale_slot_holes:
  "length (filter (\<lambda>s. s \<noteq> Hole) (map (scale_slot md) cs)) = length (filter (\<lambda>s. s \<noteq> Hole) cs)"
  by (induction cs) auto

lemma drawCourtPolygon_polygon:
  assumes "drawCourtPolygon cs sx sy = Inr os" and "CourtPolygon path \<in> set os"
  shows "length cs = 4 \<and> Undefined \<notin> set cs
           \<and> length path = length (filter (\<lambda>s. s \<noteq> Hole) cs)"
proof -
  from assms have len: "length cs = 4" and u: "Undefined \<notin> set cs"
    and path: "path = polygon_path cs sx sy"
    by (auto simp: drawCourtPolygon_def split: if_splits)
  from path have "length path = length (filter (\<lambda>s. s \<noteq> Hole \<and> s \<noteq> Undefined) cs)"
    by (simp only: polygon_path_length)
  then have "length path = length (filter (\<lambda>s. s \<noteq> Hole) cs)"
    by (simp only: filter_no_undefined [OF u])
  with len u show ?thesis by blast
qed

lemma draw_court_polygon:
  assumes "draw_court p sx sy = Inr os" and "CourtPolygon path \<in> set os"
  shows "\<exists>cs. avgCourtCorners p = Some cs \<and> length cs = 4 \<and> Undefined \<notin> set cs
           \<and> length path = length (filter (\<lambda>s. s \<noteq> Hole) cs)"
proof (cases "avgCourtCorners p")
  case None
  with assms show ?thesis by (simp add: draw_court_def)
next
  case (Some cs)
  show ?thesis
  proof (cases "showCourtTracking p \<and> length cs = 4")
    case False
    with Some assms show ?thesis by (auto simp: draw_court_def)
  next
    case True
    with Some assms obtain n where n: "isNormalized cs = Some n"
      by (cases "isNormalized cs") (auto simp: draw_court_def)
    show ?thesis
    proof (cases n)
      case False
      with assms(1) Some True n have "drawCourtPolygon cs sx sy = Inr os"
        by (simp add: draw_court_def)
      from drawCourtPolygon_polygon [OF this assms(2)] Some show ?thesis by blast
    next
      case n_true: True
      with assms(1) Some True n have u: "Undefined \<notin> set cs"
        by (auto simp: draw_court_def split: if_splits)
      with assms(1) Some True n n_true
      have "drawCourtPolygon (map (scale_slot (metadata p)) cs) sx sy = Inr os"
        by (simp add: draw_court_def)
      from drawCourtPolygon_polygon [OF this assms(2)]
      have "length path = length (filter (\<lambda>s. s \<noteq> Hole) cs)"
        by (simp only: scale_slot_holes)
      with Some True u show ?thesis by blast
    qed
  qed
qed

lemma draw_court_malformed:
  assumes "avgCourtCorners p = None \<or> (\<exists>cs. avgCourtCorners p = Some cs \<and> length cs \<noteq> 4)"
  shows "draw_court p sx sy = Inr []"
  using assms by (auto simp: draw_court_def)

lemma renderHandles_malformed:
  assumes "avgCourtCorners p = None \<or> (\<exists>cs. avgCourtCorners p = Some cs \<and> length cs \<noteq> 4)"
  shows "renderHandles p = Inr []"
  using assms by (auto simp: renderHandles_def)

lemma no_polygon_in_ball [simp]: "CourtPolygon path \<notin> set (draw_ball p cfi sx sy)"
proof -
  have box: "CourtPolygon path \<notin> set (drawBallBox b sx sy)" for b
    by (simp add: drawBallBox_def split: prod.splits)
  show ?thesis
    unfolding draw_ball_def
    by (cases "showBallTracking p"; cases "map_get (ballTracksMap (ballTracks p)) cfi")
       (simp_all add: box)
qed

lemma no_polygon_in_players [simp]: "CourtPolygon path \<notin> set (draw_players p cfi sx sy)"
proof -
  have box: "CourtPolygon path \<notin> set (drawPlayerBox b i names sx sy)" for b i names
    by (simp add: drawPlayerBox_def Let_def split: prod.splits)
  show ?thesis
    unfolding draw_players_def
    by (cases "showPlayerTracking p"; cases "map_get (playerTracksMap p) cfi")
       (simp_all add: box)
qed

lemma no_polygon_in_action [simp]: "CourtPolygon path \<notin> set (draw_action p cfi cw sx sy)"
proof -
  have box: "CourtPolygon path \<notin> set (drawActionBox a b sx sy)" for a b
    by (simp add: drawActionBox_def split: prod.splits)
  show ?thesis
    unfolding draw_action_def
    by (cases "map_get (actionFrameMap (actionDetections p)) cfi")
       (simp_all add: box split: option.splits)
qed

lemma draw_polygon_from_court:
  assumes "draw p d = Inr (Drawn fr)" and "CourtPolygon path \<in> set (ops fr)"
  shows "\<exists>sx sy court. draw_court p sx sy = Inr court \<and> CourtPolygon path \<in> set court"
  using assms
  by (auto simp: draw_def Let_def split: option.splits prod.splits if_splits sum.splits) blast+

lemma draw_malformed_no_error:
  assumes "avgCourtCorners p = None \<or> (\<exists>cs. avgCourtCorners p = Some cs \<and> length cs \<noteq> 4)"
  shows "draw p d \<noteq> Inl e"
  using draw_court_malformed [OF assms]
  by (auto simp: draw_def Let_def split: option.splits prod.splits if_splits sum.splits)

text \<open>
  C7. When the corner array is \<^verbatim>\<open>null\<close> or its length is not 4, the court step of
  \<^verbatim>\<open>draw\<close> draws nothing, no handle is rendered, \<^verbatim>\<open>draw\<close> throws no exception and no
  frame it draws holds a court polygon. Every polygon that \<^verbatim>\<open>draw\<close> renders comes from a
  corner array of length 4 that holds no \<^verbatim>\<open>undefined\<close> and has one vertex for each slot
  that is not a hole: four vertices for an array without holes.
\<close>

theorem malformed_corners_suppressed:
  "((avgCourtCorners p = None \<or> (\<exists>cs. avgCourtCorners p = Some cs \<and> length cs \<noteq> 4))
      \<longrightarrow> draw_court p sx sy = Inr [] \<and> renderHandles p = Inr [] \<and> (\<forall>e. draw p d \<noteq> Inl e)
          \<and> (\<forall>fr path. draw p d = Inr (Drawn fr) \<longrightarrow> CourtPolygon path \<notin> set (ops fr)))
   \<and> (\<forall>fr path. draw p d = Inr (Drawn fr) \<and> CourtPolygon path \<in> set (ops fr)
        \<longrightarrow> (\<exists>cs. avgCourtCorners p = Some cs \<and> length cs = 4 \<and> Undefined \<notin> set cs
                \<and> length path = length (filter (\<lambda>s. s \<noteq> Hole) cs)
                \<and> (Hole \<notin> set cs \<longrightarrow> length path = 4)))"
proof (intro conjI impI allI)
  assume m: "avgCourtCorners p = None \<or> (\<exists>cs. avgCourtCorners p = Some cs \<and> length cs \<noteq> 4)"
  show "draw_court p sx sy = Inr []" by (rule draw_court_malformed [OF m])
  show "renderHandles p = Inr []" by (rule renderHandles_malformed [OF m])
  show "draw p d \<noteq> Inl e" for e by (rule draw_malformed_no_error [OF m])
  show "CourtPolygon path \<notin> set (ops fr)" if "draw p d = Inr (Drawn fr)" for fr path
  proof
    assume "CourtPolygon path \<in> set (ops fr)"
    from draw_polygon_from_court [OF that this] obtain sx' sy' court where
      "draw_court p sx' sy' = Inr court" "CourtPolygon path \<in> set court" by blast
    with draw_court_malformed [OF m, of sx' sy'] show False by simp
  qed
next
  fix fr path
  assume h: "draw p d = Inr (Drawn fr) \<and> CourtPolygon path \<in> set (ops fr)"
  then obtain sx' sy' court where
    c: "draw_court p sx' sy' = Inr court" "CourtPolygon path \<in> set court"
    using draw_polygon_from_court by blast
  from draw_court_polygon [OF c] obtain cs where
    cs: "avgCourtCorners p = Some cs" "length cs = 4" "Undefined \<notin> set cs"
        "length path = length (filter (\<lambda>s. s \<noteq> Hole) cs)"
    by blast
  have "Hole \<notin> set cs \<longrightarrow> length path = 4"
  proof
    assume "Hole \<notin> set cs"
    then have "\<forall>s\<in>set cs. s \<noteq> Hole" by metis
    then have "filter (\<lambda>s. s \<noteq> Hole) cs = cs" by (rule filter_True)
    with cs show "length path = 4" by simp
  qed
  with cs show "\<exists>cs. avgCourtCorners p = Some cs \<and> length cs = 4 \<and> Undefined \<notin> set cs
                \<and> length path = length (filter (\<lambda>s. s \<noteq> Hole) cs)
                \<and> (Hole \<notin> set cs \<longrightarrow> length path = 4)"
    by blast
qed


theorem malformed_corners_suppressed_witness:
  "draw_court three_corner_props (Fin 2) (Fin 2) = Inr []
   \<and> renderHandles three_corner_props = Inr []
   \<and> draw three_corner_props example_dom
       = Inr (Drawn \<lparr>renderWidth = Fin 1280, renderHeight = Fin 720, topOffset = Fin 0, leftOffset = Fin 0,
                      ops = [DrawImage (Fin 1280) (Fin 720)], net = NetUnchanged\<rparr>)
   \<and> draw (example_props\<lparr>ball3dPositions := None\<rparr>) example_dom
       = Inr (Drawn \<lparr>renderWidth = Fin 1280, renderHeight = Fin 720, topOffset = Fin 0, leftOffset = Fin 0,
                      ops = [DrawImage (Fin 1280) (Fin 720),
                             CourtPolygon [MoveTo (Fin 200) (Fin 100), LineTo (Fin 1000) (Fin 100),
                                           LineTo (Fin 1000) (Fin 600), LineTo (Fin 200) (Fin 600)]],
                      net = NetUnchanged\<rparr>)
   \<and> length [MoveTo (Fin 200) (Fin 100), LineTo (Fin 1000) (Fin 100),
              LineTo (Fin 1000) (Fin 600), LineTo (Fin 200) (Fin 600)] = 4"
proof -
  let ?path = "[MoveTo (Fin 200) (Fin 100), LineTo (Fin 1000) (Fin 100),
                LineTo (Fin 1000) (Fin 600), LineTo (Fin 200) (Fin 600)]"
  let ?fr = "\<lparr>renderWidth = Fin 1280, renderHeight = Fin 720, topOffset = Fin 0, leftOffset = Fin 0,
              ops = [DrawImage (Fin 1280) (Fin 720), CourtPolygon ?path], net = NetUnchanged\<rparr>"
  have three: "avgCourtCorners three_corner_props
                 = Some [Present (Fin 100, Fin 50), Present (Fin 500, Fin 50), Present (Fin 500, Fin 300)]"
    by (simp add: three_corner_props_def)
  have a: "draw_court three_corner_props (Fin 2) (Fin 2) = Inr []
           \<and> renderHandles three_corner_props = Inr []"
    using malformed_corners_suppressed [of three_corner_props "Fin 2" "Fin 2" example_dom]
    by (simp add: three)
  have b: "draw three_corner_props example_dom
       = Inr (Drawn \<lparr>renderWidth = Fin 1280, renderHeight = Fin 720, topOffset = Fin 0, leftOffset = Fin 0,
                      ops = [DrawImage (Fin 1280) (Fin 720)], net = NetUnchanged\<rparr>)"
    by (simp add: draw_def three_corner_props_def example_props_def example_dom_def example_metadata_def
          truthy_def isNaN_def Let_def jgt_def jsub_def getCanvasScale_def draw_court_def
          draw_ball_def draw_players_def draw_action_def map_get_def ballTracksMap_def actionFrameMap_def
          net_view_update_def)
  have c: "draw (example_props\<lparr>ball3dPositions := None\<rparr>) example_dom = Inr (Drawn ?fr)"
    by (simp add: draw_def example_props_def example_dom_def example_metadata_def
          truthy_def isNormalized_def isNaN_def Let_def jgt_def jsub_def getCanvasScale_def draw_court_def
          draw_ball_def draw_players_def draw_action_def map_get_def ballTracksMap_def actionFrameMap_def
          drawCourtPolygon_def polygon_path_def scale_slot_def net_view_update_def enumerate_eq_zip
          upt_rec)
  have "\<exists>cs. avgCourtCorners (example_props\<lparr>ball3dPositions := None\<rparr>) = Some cs \<and> length cs = 4
          \<and> Undefined \<notin> set cs
          \<and> length ?path = length (filter (\<lambda>s. s \<noteq> Hole) cs)
          \<and> (Hole \<notin> set cs \<longrightarrow> length ?path = 4)"
    using malformed_corners_suppressed [of "example_props\<lparr>ball3dPositions := None\<rparr>" "Fin 2" "Fin 2"
        example_dom] c
    by auto
  then have d: "length ?path = 4"
    by (auto simp: example_props_def)
  from a b c d show ?thesis by simp
qed

text \<open>
  From four corners, none a hole and none \<^verbatim>\<open>undefined\<close>, a drag of one of the four
  handles leaves four such corners.
\<close>

lemma pointer_move_keeps_four:
  assumes "avgCourtCorners p = Some cs" and "length cs = 4"
    and "Hole \<notin> set cs" and "Undefined \<notin> set cs" and "idx < 4"
  shows "\<exists>cs'. avgCourtCorners (pointer_move p (Some idx) r e) = Some cs'
           \<and> length cs' = 4 \<and> Hole \<notin> set cs' \<and> Undefined \<notin> set cs'"
proof (cases "handleGlobalMove p (Some idx) r e")
  case (Inl err)
  with assms show ?thesis by (simp add: pointer_move_def)
next
  case (Inr res)
  show ?thesis
  proof (cases res)
    case None
    with Inr assms show ?thesis by (simp add: pointer_move_def)
  next
    case (Some iv)
    obtain j v where iv: "iv = (j, v)" by (cases iv)
    from Inr Some iv have h: "handleGlobalMove p (Some idx) r e = Inr (Some (j, v))" by simp
    then have j: "j = idx"
      by (auto simp: handleGlobalMove_def Let_def split: option.splits if_splits)
    have sub: "set (cs[idx := Present v]) \<subseteq> insert (Present v) (set cs)"
      by (rule set_update_subset_insert)
    have "Hole \<notin> set (cs[idx := Present v])" "Undefined \<notin> set (cs[idx := Present v])"
      using assms(3,4) sub by auto
    then show ?thesis
      using assms
      by (simp add: pointer_move_def h j update_corner_def Let_def spread_no_hole)
  qed
qed

lemma drag_keeps_four:
  assumes "avgCourtCorners p = Some cs" and "length cs = 4"
    and "Hole \<notin> set cs" and "Undefined \<notin> set cs" and "idx < 4"
  shows "\<exists>cs'. avgCourtCorners (drag p idx moves) = Some cs' \<and> length cs' = 4
           \<and> Hole \<notin> set cs' \<and> Undefined \<notin> set cs'"
  using assms(1-4)
proof (induction moves arbitrary: p cs)
  case Nil
  then show ?case by simp
next
  case (Cons m moves)
  obtain r e where m: "m = (r, e)" by (cases m)
  from pointer_move_keeps_four [OF Cons.prems assms(5), of r e] obtain cs' where
    "avgCourtCorners (pointer_move p (Some idx) r e) = Some cs'" "length cs' = 4"
    "Hole \<notin> set cs'" "Undefined \<notin> set cs'"
    by blast
  from Cons.IH [OF this] show ?case by (simp add: m)
qed

text \<open>
  A write beyond the end of a shorter array: handle 3 written into two corners leaves a
  hole at index 2, which the polygon and the handles skip; the copy made by the next
  pointer-move turns the hole into \<^verbatim>\<open>undefined\<close>, on which the court step and the handle
  layer throw.
\<close>

lemma write_beyond_end:
  "avgCourtCorners (drag two_corner_props 3 [(Some example_rect, move_centre)])
     = Some [Present (Fin 100, Fin 50), Present (Fin 500, Fin 50), Hole, Present (Fin 320, Fin 180)]"
  "draw_court (drag two_corner_props 3 [(Some example_rect, move_centre)]) (Fin 2) (Fin 2)
     = Inr [CourtPolygon [MoveTo (Fin 200) (Fin 100), LineTo (Fin 1000) (Fin 100),
                          LineTo (Fin 640) (Fin 360)]]"
  "avgCourtCorners (drag two_corner_props 3
       [(Some example_rect, move_centre), (Some example_rect, move_left_edge)])
     = Some [Present (Fin 100, Fin 50), Present (Fin 500, Fin 50), Undefined, Present (Fin 0, Fin 50)]"
  "draw_court (drag two_corner_props 3
       [(Some example_rect, move_centre), (Some example_rect, move_left_edge)]) (Fin 2) (Fin 2)
     = Inl TypeError"
  "renderHandles (drag two_corner_props 3
       [(Some example_rect, move_centre), (Some example_rect, move_left_edge)])
     = Inl TypeError"
  by (simp_all add: pointer_move_def handleGlobalMove_def isNormalized_def update_corner_def spread_def
        two_corner_props_def example_props_def example_metadata_def example_rect_def move_centre_def
        move_left_edge_def Math_max_def Math_min_def jsub_def Let_def draw_court_def
        drawCourtPolygon_def polygon_path_def renderHandles_def enumerate_eq_zip upt_rec)

section \<open>Properties of the event timeline\<close>

lemma pointItems_from_length [simp]: "length (pointItems_from idx a b pts) = length pts"
  by (induction pts arbitrary: idx a b) (simp_all add: Let_def)

lemma pointItems_from_timestamps:
  "map point_timestamp (pointItems_from idx a b pts) = map time pts"
  by (induction pts arbitrary: idx a b) (simp_all add: Let_def)

lemma pointItems_from_nth:
  "k < length pts \<Longrightarrow>
     pointItems_from idx a b pts ! k =
       \<lparr>point_id = idx + k, point_timestamp = time (pts ! k),
        scoreA = a + length (filter (\<lambda>p. team p = Team0) (take (Suc k) pts)),
        scoreB = b + length (filter (\<lambda>p. team p = Team1) (take (Suc k) pts))\<rparr>"
proof (induction pts arbitrary: idx a b k)
  case Nil
  then show ?case by simp
next
  case (Cons pt pts)
  show ?case
  proof (cases k)
    case 0
    then show ?thesis by (cases "team pt") (simp_all add: Let_def)
  next
    case (Suc j)
    with Cons.prems have j: "j < length pts" by simp
    show ?thesis
      using Cons.IH [OF j] Suc by (cases "team pt") (simp_all add: Let_def)
  qed
qed

lemma is_point_simps [simp]:
  "is_point (PointDivider d)" "\<not> is_point (EventCard c)"
  by (simp_all add: is_point_def)

lemma timeline_dividers:
  "filter is_point (timelineItems evs pts f) = sort_key timestamp (map PointDivider (pointItems pts))"
proof -
  have "filter is_point (map EventCard (eventItems f evs) @ map PointDivider (pointItems pts))
          = map PointDivider (pointItems pts)"
    by (simp add: filter_map comp_def)
  then show ?thesis
    by (simp only: timelineItems_def Let_def filter_sort)
qed

lemma dividers_sorted:
  assumes "sorted (map time pts)"
  shows "sort_key timestamp (map PointDivider (pointItems pts)) = map PointDivider (pointItems pts)"
proof -
  have "map timestamp (map PointDivider (pointItems pts)) = map time pts"
    using pointItems_from_timestamps [of 0 0 0 pts]
    by (simp add: pointItems_def comp_def timestamp_def)
  with assms show ?thesis by (simp only: sort_key_id_if_sorted)
qed

text \<open>
  C8 fails as stated for a stream whose points do not arrive in time order: the sort moves
  the divider of the second point, which shows \<open>1 - 1\<close>, in front of the divider of the
  first point.
\<close>

theorem unsorted_points_counterexample:
  "timelineItems [] [\<lparr>team = Team0, time = 12\<rparr>, \<lparr>team = Team1, time = 5\<rparr>] None
     = [PointDivider \<lparr>point_id = 1, point_timestamp = 5, scoreA = 1, scoreB = 1\<rparr>,
        PointDivider \<lparr>point_id = 0, point_timestamp = 12, scoreA = 1, scoreB = 0\<rparr>]"
  by (simp add: timelineItems_def eventItems_def pointItems_def timestamp_def Let_def)

text \<open>
  C8, amended. The divider made from the \<open>k\<close>-th point in arrival order shows the numbers
  of team-0 and team-1 points among the first \<open>k\<close> points. The dividers of the merged
  timeline are these dividers in ascending time order, whatever the events and the frame
  rate are; when the point times do not decrease in arrival order, the \<open>k\<close>-th divider of
  the timeline is the one of the \<open>k\<close>-th point.
\<close>

theorem running_score_dividers:
  "filter is_point (timelineItems evs pts f) = sort_key timestamp (map PointDivider (pointItems pts))
   \<and> (\<forall>k<length pts.
         pointItems pts ! k =
           \<lparr>point_id = k, point_timestamp = time (pts ! k),
            scoreA = length (filter (\<lambda>p. team p = Team0) (take (Suc k) pts)),
            scoreB = length (filter (\<lambda>p. team p = Team1) (take (Suc k) pts))\<rparr>)
   \<and> (sorted (map time pts) \<longrightarrow>
         filter is_point (timelineItems evs pts f) = map PointDivider (pointItems pts))"
  using timeline_dividers [of evs pts f] dividers_sorted [of pts] pointItems_from_nth [of _ pts 0 0 0]
  by (simp add: pointItems_def)

theorem running_score_dividers_witness:
  "filter is_point
     (timelineItems [example_event\<lparr>ev_start_frame := 240, ev_end_frame := 270\<rparr>]
        [\<lparr>team = Team0, time = 5\<rparr>, \<lparr>team = Team1, time = 12\<rparr>] (Some 30))
     = [PointDivider \<lparr>point_id = 0, point_timestamp = 5, scoreA = 1, scoreB = 0\<rparr>,
        PointDivider \<lparr>point_id = 1, point_timestamp = 12, scoreA = 1, scoreB = 1\<rparr>]
   \<and> map timestamp
       (timelineItems [example_event\<lparr>ev_start_frame := 240, ev_end_frame := 270\<rparr>]
          [\<lparr>team = Team0, time = 5\<rparr>, \<lparr>team = Team1, time = 12\<rparr>] (Some 30))
     = [5, 8, 12]"
proof -
  have a: "filter is_point
     (timelineItems [example_event\<lparr>ev_start_frame := 240, ev_end_frame := 270\<rparr>]
        [\<lparr>team = Team0, time = 5\<rparr>, \<lparr>team = Team1, time = 12\<rparr>] (Some 30))
     = [PointDivider \<lparr>point_id = 0, point_timestamp = 5, scoreA = 1, scoreB = 0\<rparr>,
        PointDivider \<lparr>point_id = 1, point_timestamp = 12, scoreA = 1, scoreB = 1\<rparr>]"
    using running_score_dividers
      [of "[example_event\<lparr>ev_start_frame := 240, ev_end_frame := 270\<rparr>]"
          "[\<lparr>team = Team0, time = 5\<rparr>, \<lparr>team = Team1, time = 12\<rparr>]" "Some 30"]
    by (simp add: pointItems_def Let_def timestamp_def)
  have b: "map timestamp
       (timelineItems [example_event\<lparr>ev_start_frame := 240, ev_end_frame := 270\<rparr>]
          [\<lparr>team = Team0, time = 5\<rparr>, \<lparr>team = Team1, time = 12\<rparr>] (Some 30))
     = [5, 8, 12]"
    by (simp add: timelineItems_def eventItems_def eventItem_def pointItems_def timestamp_def Let_def
          example_event_def fps_or_30_def truthy_opt_def)
  from a b show ?thesis by simp
qed


lemma extraInfo_eventItem:
  "extraInfo (eventItem f ev i) =
     (if ev_action ev = ''spike'' \<and> truthy_opt (ball_height_m ev) then Meters (the (ball_height_m ev))
      else if ev_action ev = ''block'' \<and> truthy_opt (block_height_m ev) then Meters (the (block_height_m ev))
      else if ev_action ev = ''set'' \<and> truthy_opt (ball_height_m ev) then Meters (the (ball_height_m ev))
      else if ev_action ev = ''set'' \<and> truthy_opt (set_position ev) then XMeters (the (set_position ev))
      else Seconds ((ev_end_frame ev - ev_start_frame ev) / fps_or_30 f))"
  by (simp add: eventItem_def Let_def)

lemma truthy_opt_Some: "truthy_opt (Some h) = (h \<noteq> 0)"
  by (simp add: truthy_opt_def)

text \<open>
  C9 fails as stated: the tests are on truthiness, so a height or position of \<open>0\<close> counts as
  absent. A spike whose ball height is \<open>0\<close> shows its duration.
\<close>

theorem height_zero_counterexample:
  "ev_action example_event = ''spike'' \<and> ball_height_m example_event = Some 0
   \<and> extraInfo (eventItem (Some 30) example_event 0) = Seconds 1"
  by (simp add: extraInfo_eventItem example_event_def truthy_opt_def fps_or_30_def)

text \<open>
  C9, amended. A metric counts when it is present and not \<open>0\<close>. The secondary metric of an
  event card is then, in this order: the ball height of a spike; the block height of a
  block; the ball height of a set; the set position of a set; otherwise the duration
  \<open>(end_frame - start_frame) / fps\<close>.
\<close>

theorem extraInfo_priority:
  "(ev_action ev = ''spike'' \<and> ball_height_m ev = Some h \<and> h \<noteq> 0
      \<longrightarrow> extraInfo (eventItem f ev i) = Meters h)
   \<and> (ev_action ev = ''block'' \<and> block_height_m ev = Some h \<and> h \<noteq> 0
      \<longrightarrow> extraInfo (eventItem f ev i) = Meters h)
   \<and> (ev_action ev = ''set'' \<and> ball_height_m ev = Some h \<and> h \<noteq> 0
      \<longrightarrow> extraInfo (eventItem f ev i) = Meters h)
   \<and> (ev_action ev = ''set'' \<and> \<not> truthy_opt (ball_height_m ev) \<and> set_position ev = Some x \<and> x \<noteq> 0
      \<longrightarrow> extraInfo (eventItem f ev i) = XMeters x)
   \<and> (\<not> (ev_action ev = ''spike'' \<and> truthy_opt (ball_height_m ev))
        \<and> \<not> (ev_action ev = ''block'' \<and> truthy_opt (block_height_m ev))
        \<and> \<not> (ev_action ev = ''set'' \<and> truthy_opt (ball_height_m ev))
        \<and> \<not> (ev_action ev = ''set'' \<and> truthy_opt (set_position ev))
      \<longrightarrow> extraInfo (eventItem f ev i)
            = Seconds ((ev_end_frame ev - ev_start_frame ev) / fps_or_30 f))
   \<and> (truthy_opt v \<longleftrightarrow> (\<exists>r. v = Some r \<and> r \<noteq> 0))"
proof -
  have t: "truthy_opt v \<longleftrightarrow> (\<exists>r. v = Some r \<and> r \<noteq> 0)" for v
    by (cases v) (simp_all add: truthy_opt_def)
  show ?thesis
    unfolding extraInfo_eventItem using t [of v]
    by (auto simp: truthy_opt_Some)
qed

theorem extraInfo_priority_witness:
  "extraInfo (eventItem (Some 30) (example_event\<lparr>ball_height_m := Some 3\<rparr>) 0) = Meters 3
   \<and> extraInfo (eventItem (Some 30)
        (example_event\<lparr>ev_action := ''block'', block_height_m := Some (5 / 2)\<rparr>) 0) = Meters (5 / 2)
   \<and> extraInfo (eventItem (Some 30)
        (example_event\<lparr>ev_action := ''set'', ball_height_m := Some 2, set_position := Some 4\<rparr>) 0) = Meters 2
   \<and> extraInfo (eventItem (Some 30)
        (example_event\<lparr>ev_action := ''set'', set_position := Some 4\<rparr>) 0) = XMeters 4
   \<and> extraInfo (eventItem (Some 30) (example_event\<lparr>ev_action := ''serve''\<rparr>) 0) = Seconds 1"
proof -
  have a: "extraInfo (eventItem (Some 30) (example_event\<lparr>ball_height_m := Some 3\<rparr>) 0) = Meters 3"
    using extraInfo_priority [of "example_event\<lparr>ball_height_m := Some 3\<rparr>" 3 "Some 30" 0]
    by (simp add: example_event_def)
  have b: "extraInfo (eventItem (Some 30)
        (example_event\<lparr>ev_action := ''block'', block_height_m := Some (5 / 2)\<rparr>) 0) = Meters (5 / 2)"
    using extraInfo_priority
      [of "example_event\<lparr>ev_action := ''block'', block_height_m := Some (5 / 2)\<rparr>" "5 / 2" "Some 30" 0]
    by (simp add: example_event_def)
  have c: "extraInfo (eventItem (Some 30)
        (example_event\<lparr>ev_action := ''set'', ball_height_m := Some 2, set_position := Some 4\<rparr>) 0) = Meters 2"
    using extraInfo_priority
      [of "example_event\<lparr>ev_action := ''set'', ball_height_m := Some 2, set_position := Some 4\<rparr>" 2
          "Some 30" 0]
    by (simp add: example_event_def)
  have d: "extraInfo (eventItem (Some 30)
        (example_event\<lparr>ev_action := ''set'', set_position := Some 4\<rparr>) 0) = XMeters 4"
    using extraInfo_priority
      [of "example_event\<lparr>ev_action := ''set'', set_position := Some 4\<rparr>" _ "Some 30" 0 4]
    by (simp add: example_event_def truthy_opt_def)
  have e: "extraInfo (eventItem (Some 30) (example_event\<lparr>ev_action := ''serve''\<rparr>) 0) = Seconds 1"
    using extraInfo_priority [of "example_event\<lparr>ev_action := ''serve''\<rparr>" _ "Some 30" 0]
    by (simp add: example_event_def fps_or_30_def)
  from a b c d e show ?thesis by simp
qed

end
